theory Spec2Isabelle
  imports Complex_Main "HOL-Library.Multiset" "HOL-Library.Sublist"
begin

section \<open>Host primitives used by script.js\<close>

text \<open>
  Strings are lists of ASCII code units (ticker symbols, item codes and form input).
  Numbers are finite and are modelled as rationals: on finite numbers the comparisons and
  the sign of a difference, which is all the filter, the sort comparators and the
  histogram use, agree with the rationals. A number that may be missing from its record
  is a \<open>rat option\<close>: \<open>None\<close> is \<open>undefined\<close>, which arithmetic and comparisons read as
  \<open>NaN\<close>.
\<close>

text \<open>\<open>a < b\<close> where \<open>a\<close> may be missing: a comparison with \<open>NaN\<close> is false.\<close>

definition jsLess :: "rat option \<Rightarrow> rat \<Rightarrow> bool" where
  "jsLess a b = (case a of None \<Rightarrow> False | Some x \<Rightarrow> x < b)"

text \<open>\<open>a - b\<close> where either operand may be missing: \<open>NaN\<close> as soon as one is.\<close>

definition numDiff :: "rat option \<Rightarrow> rat option \<Rightarrow> rat option" where
  "numDiff a b = (case a of None \<Rightarrow> None | Some x \<Rightarrow> (case b of None \<Rightarrow> None | Some y \<Rightarrow> Some (x - y)))"

definition isWhiteSpace :: "char \<Rightarrow> bool" where
  "isWhiteSpace c = (c \<in> set [CHR 0x09, CHR 0x0A, CHR 0x0B, CHR 0x0C, CHR 0x0D, CHR '' ''])"

text \<open>\<open>String.prototype.trim\<close>: white space is removed from both ends.\<close>

definition trim :: "string \<Rightarrow> string" where
  "trim s = rev (dropWhile isWhiteSpace (rev (dropWhile isWhiteSpace s)))"

definition upperChar :: "char \<Rightarrow> char" where
  "upperChar c =
     (case map_of (zip ''abcdefghijklmnopqrstuvwxyz'' ''ABCDEFGHIJKLMNOPQRSTUVWXYZ'') c of
        Some u \<Rightarrow> u
      | None \<Rightarrow> c)"

text \<open>\<open>String.prototype.toUpperCase\<close> on ASCII text.\<close>

definition toUpperCase :: "string \<Rightarrow> string" where
  "toUpperCase s = map upperChar s"

text \<open>
  \<open>String.prototype.split\<close> with a one-character separator: the empty string gives one
  empty token, and two adjacent separators give an empty token between them.
\<close>

fun split :: "char \<Rightarrow> string \<Rightarrow> string list" where
  "split c [] = [[]]"
| "split c (x # xs) =
     (if x = c then [] # split c xs
      else (case split c xs of [] \<Rightarrow> [[x]] | t # ts \<Rightarrow> (x # t) # ts))"

text \<open>\<open>String.prototype.includes\<close>: \<open>t\<close> occurs in \<open>s\<close> as a contiguous run.\<close>

fun str_includes :: "string \<Rightarrow> string \<Rightarrow> bool" where
  "str_includes [] t = (t = [])"
| "str_includes (x # xs) t = (prefix t (x # xs) \<or> str_includes xs t)"

text \<open>\<open>Array.prototype.join\<close>.\<close>

fun join :: "string \<Rightarrow> string list \<Rightarrow> string" where
  "join sep [] = []"
| "join sep [x] = x"
| "join sep (x # y # ys) = x @ sep @ join sep (y # ys)"

text \<open>
  \<open>Array.prototype.sort\<close> with a comparator. The comparator's result is a number or
  \<open>NaN\<close> (\<open>None\<close>), and the host reads \<open>NaN\<close> as \<open>0\<close>. The sort is the host's: it is modelled
  as V8 runs it on an array of fewer than 64 elements, where the whole array is one run:
  \<open>CountAndMakeRun\<close> takes the longest run the array starts with (reversed when it
  descends strictly) and \<open>BinaryInsertionSort\<close> inserts the elements after it, one by one,
  by binary search. On 64 elements or more V8 merges several such runs; there the model
  takes stable insertion from the right, which gives the same list whenever the
  comparator is consistent (a stable sort has one result then).
\<close>

definition positive :: "rat option \<Rightarrow> bool" where
  "positive r = (case r of None \<Rightarrow> False | Some v \<Rightarrow> 0 < v)"

definition negative :: "rat option \<Rightarrow> bool" where
  "negative r = (case r of None \<Rightarrow> False | Some v \<Rightarrow> v < 0)"

text \<open>
  The loop of \<open>CountAndMakeRun\<close>: the elements that continue the run after
  \<open>previousElement\<close>, and the others. A descending run goes on while the order is negative,
  an ascending one while it is not.
\<close>

fun takeRun :: "('a \<Rightarrow> 'a \<Rightarrow> rat option) \<Rightarrow> bool \<Rightarrow> 'a \<Rightarrow> 'a list \<Rightarrow> 'a list \<times> 'a list" where
  "takeRun cmp isDescending previousElement [] = ([], [])"
| "takeRun cmp isDescending previousElement (currentElement # rest) =
     (let order = cmp currentElement previousElement in
      if (if isDescending then \<not> negative order else negative order)
      then ([], currentElement # rest)
      else (case takeRun cmp isDescending currentElement rest of
              (run, others) \<Rightarrow> (currentElement # run, others)))"

fun countAndMakeRun :: "('a \<Rightarrow> 'a \<Rightarrow> rat option) \<Rightarrow> 'a list \<Rightarrow> 'a list \<times> 'a list" where
  "countAndMakeRun cmp [] = ([], [])"
| "countAndMakeRun cmp [x] = ([x], [])"
| "countAndMakeRun cmp (elementHigh # elementLow # rest) =
     (let isDescending = negative (cmp elementLow elementHigh) in
      case takeRun cmp isDescending elementLow rest of
        (run, others) \<Rightarrow>
          (if isDescending then rev (elementHigh # elementLow # run)
           else elementHigh # elementLow # run, others))"

text \<open>
  The search of \<open>BinaryInsertionSort\<close> for the place of \<open>pivot\<close> in \<open>arr\<close>, between \<open>left\<close> and
  \<open>right\<close>; \<open>mid\<close> is below \<open>right\<close>, so the read is in range when \<open>right\<close> is at most the
  length.
\<close>

function binarySearch :: "('a \<Rightarrow> 'a \<Rightarrow> rat option) \<Rightarrow> 'a \<Rightarrow> 'a list \<Rightarrow> nat \<Rightarrow> nat \<Rightarrow> nat" where
  "binarySearch cmp pivot arr left right =
     (if left < right then
        (let mid = left + (right - left) div 2 in
         if negative (cmp pivot (arr ! mid))
         then binarySearch cmp pivot arr left mid
         else binarySearch cmp pivot arr (mid + 1) right)
      else left)"
  by pat_completeness auto
termination
  by (relation "measure (\<lambda>(cmp, pivot, arr, left, right). right - left)") auto

declare binarySearch.simps [simp del]

definition binaryInsert :: "('a \<Rightarrow> 'a \<Rightarrow> rat option) \<Rightarrow> 'a list \<Rightarrow> 'a \<Rightarrow> 'a list" where
  "binaryInsert cmp arr pivot =
     (let left = binarySearch cmp pivot arr 0 (length arr) in
      take left arr @ pivot # drop left arr)"

fun insertBy :: "('a \<Rightarrow> 'a \<Rightarrow> rat option) \<Rightarrow> 'a \<Rightarrow> 'a list \<Rightarrow> 'a list" where
  "insertBy cmp x [] = [x]"
| "insertBy cmp x (y # ys) =
     (if positive (cmp x y) then y # insertBy cmp x ys else x # y # ys)"

definition jsSort :: "('a \<Rightarrow> 'a \<Rightarrow> rat option) \<Rightarrow> 'a list \<Rightarrow> 'a list" where
  "jsSort cmp xs =
     (if length xs < 64
      then (case countAndMakeRun cmp xs of (run, others) \<Rightarrow> foldl (binaryInsert cmp) run others)
      else foldr (insertBy cmp) xs [])"

text \<open>
  \<open>new Date(s)\<close> is a parameter \<open>D\<close> of every function that sorts by date: \<open>D s\<close> is the
  time value in milliseconds, or \<open>None\<close> for an invalid date. The difference of two dates
  is \<open>NaN\<close> as soon as one of them is invalid.
\<close>

definition dateDiff :: "rat option \<Rightarrow> rat option \<Rightarrow> rat option" where
  "dateDiff a b = (case a of None \<Rightarrow> None | Some x \<Rightarrow> (case b of None \<Rightarrow> None | Some y \<Rightarrow> Some (x - y)))"

text \<open>
  One instance of the date parameter, for evaluating the functions on concrete records:
  the date-only ISO form \<open>YYYY-MM-DD\<close>, read as midnight UTC; every other string is an
  invalid date here.
\<close>

definition digitVal :: "char \<Rightarrow> int option" where
  "digitVal c = map_of (zip ''0123456789'' [0, 1, 2, 3, 4, 5, 6, 7, 8, 9]) c"

fun digitsVal :: "int \<Rightarrow> string \<Rightarrow> int option" where
  "digitsVal acc [] = Some acc"
| "digitsVal acc (c # cs) =
     (case digitVal c of None \<Rightarrow> None | Some d \<Rightarrow> digitsVal (10 * acc + d) cs)"

definition daysInMonth :: "int \<Rightarrow> int \<Rightarrow> int" where
  "daysInMonth y m =
     (if m = 2 then (if y mod 4 = 0 \<and> (y mod 100 \<noteq> 0 \<or> y mod 400 = 0) then 29 else 28)
      else if m = 4 \<or> m = 6 \<or> m = 9 \<or> m = 11 then 30 else 31)"

definition daysFromCivil :: "int \<Rightarrow> int \<Rightarrow> int \<Rightarrow> int" where
  "daysFromCivil y m d =
     (let y' = (if m \<le> 2 then y - 1 else y);
          era = y' div 400;
          yoe = y' - era * 400;
          doy = (153 * (if 2 < m then m - 3 else m + 9) + 2) div 5 + d - 1;
          doe = yoe * 365 + yoe div 4 - yoe div 100 + doy
      in era * 146097 + doe - 719468)"

definition isoDate :: "string \<Rightarrow> rat option" where
  "isoDate s =
     (if length s = 10 \<and> s ! 4 = CHR ''-'' \<and> s ! 7 = CHR ''-'' then
        (case (digitsVal 0 (take 4 s), digitsVal 0 (take 2 (drop 5 s)), digitsVal 0 (drop 8 s)) of
           (Some y, Some m, Some d) \<Rightarrow>
             (if 1 \<le> m \<and> m \<le> 12 \<and> 1 \<le> d \<and> d \<le> daysInMonth y m
              then Some (of_int (daysFromCivil y m d * 86400000))
              else None)
         | _ \<Rightarrow> None)
      else None)"

section \<open>Data model\<close>

text \<open>Both kinds of record carry the ticker \<open>symbol\<close>.\<close>

record ticker =
  symbol :: string

text \<open>
  A trade. \<open>price\<close> and \<open>totalValue\<close> may be missing from the record (the table shows
  \<open>N/A\<close> for them then, lines 139 and 141).
\<close>

record trade = ticker +
  type :: string
  name :: string
  shares :: rat
  price :: "rat option"
  totalValue :: "rat option"
  transactionCode :: "string option"
  transactionDescription :: "string option"
  transactionDate :: string
  filingDate :: string
  secLink :: "string option"

text \<open>
  The \<open>items\<close> field of a filing of the feed, in the shapes of the data model: absent, an
  array of item-code strings, one comma-joined string, or another value that is no array
  (a number, a boolean, an object).
\<close>

datatype items = Absent | ItemArray "string list" | ItemString string | ItemOther

text \<open>
  What \<open>get8KExplanation\<close> finds in \<open>filing.items\<close> when it runs: any JSON value. An array
  is taken as it is, so its elements may be strings or not.
\<close>

datatype element = Str string | NonString

datatype itemsValue = NoValue | ArrayValue "element list" | StringValue string | OtherValue

definition valueOf :: "items \<Rightarrow> itemsValue" where
  "valueOf i =
     (case i of Absent \<Rightarrow> NoValue | ItemArray xs \<Rightarrow> ArrayValue (map Str xs)
      | ItemString s \<Rightarrow> StringValue s | ItemOther \<Rightarrow> OtherValue)"

text \<open>What the script can raise.\<close>

datatype error = TypeError

record filing = ticker +
  items :: items
  reportDate :: string
  filedDate :: string
  acceptedDate :: string
  reportUrl :: "string option"

text \<open>The \<open>stats\<close> object of the trades document, as \<open>updateStats\<close> reads it.\<close>

record feed_stats =
  stats_totalAlerts :: rat
  stats_buys :: rat
  stats_sells :: rat
  stats_totalValue :: rat

text \<open>The two documents of the feed; a field that is missing or falsy is \<open>None\<close>.\<close>

record tradesJson =
  trades :: "trade list option"
  stats :: "feed_stats option"
  lastUpdated :: "string option"

record form8kJson =
  filings :: "filing list option"

text \<open>
  What \<open>response.json()\<close> resolves to: \<open>null\<close>, on which reading a property raises, or a
  value whose properties can be read. What \<open>fetch\<close> gives: a rejection (network error),
  or a response with its \<open>ok\<close> flag and its body, \<open>None\<close> when the body is not JSON.
\<close>

datatype 'd parsed = JsonNull | JsonDoc 'd

datatype 'd fetched = NetworkError | Response bool "'d parsed option"

record feed =
  tradesFeed :: "tradesJson fetched"
  form8kFeed :: "form8kJson fetched"

section \<open>Application state\<close>

text \<open>
  The contents of the page elements the script writes. Number and date formatting is the
  host's and stays symbolic: \<open>LocaleNumber n\<close> is \<open>n.toLocaleString()\<close>, \<open>Dollars x u\<close> is
  \<open>'$' + x.toFixed(2) + u\<close>, \<open>LastUpdated t\<close> is the "Last updated" line for the feed's
  timestamp \<open>t\<close> (the clock's when \<open>None\<close>).
\<close>

datatype cell = LocaleNumber rat | Dollars rat string | LastUpdated "string option"

datatype form4_view = NoDataAvailable | NoTradesMatch | TradeRows "trade list"

datatype form8k_view = NoFilingsAvailable | FilingRows "(filing \<times> string) list"

text \<open>
  The chart datasets \<open>renderCharts\<close> computes: the buy and sell counts and the value
  histogram. (The ticker-frequency and timeline datasets are not part of this
  development.) Drawing is the chart library's; its constructor and the lookups of page
  elements are taken not to raise.
\<close>

record charts =
  buySell :: "nat \<times> nat"
  valueChart :: "(string \<times> nat) list"

text \<open>
  The script's global variables (lines 4 to 10), the form controls it reads (\<open>in_\<close>) and
  the page elements it writes (\<open>el_\<close>). \<open>in_filterMinValue\<close> is \<open>parseFloat\<close> of the
  field's text, a finite number or \<open>None\<close> for \<open>NaN\<close>. The global \<open>filteredForm8k\<close> is
  never read or written and is left out; \<open>chartData\<close> holds the datasets of \<open>charts\<close>.
\<close>

record state =
  tradesData :: "trade list"
  form8kData :: "filing list"
  filteredTrades :: "trade list"
  chartData :: "charts option"
  customWatchlistTickers :: "string list"
  form8kSortOrder :: string
  in_filterType :: string
  in_filterTicker :: string
  in_filterMinValue :: "rat option"
  in_sortBy :: string
  in_customWatchlist :: string
  in_sort8K :: string
  el_totalAlerts :: cell
  el_totalBuys :: cell
  el_totalSells :: cell
  el_totalValue :: cell
  el_total8K :: cell
  el_activeTickers :: cell
  el_lastUpdate :: cell
  el_form4Body :: form4_view
  el_form8kBody :: form8k_view

section \<open>The script\<close>

definition DEFAULT_WATCHLIST :: "string list" where
  "DEFAULT_WATCHLIST =
    [''MSFT'', ''NVDA'', ''TSLA'', ''GOOGL'', ''META'', ''AMZN'', ''NFLX'', ''AMD'',
     ''INTC'', ''COIN'', ''LYFT'', ''ORCL'', ''AVGO'', ''ADBE'', ''PYPL'', ''PLTR'',
     ''SMCI'', ''SOFI'', ''SMR'', ''GME'', ''HIMS'', ''CRWV'', ''XPEV'', ''HOOD'',
     ''OKLO'', ''ACHR'', ''IREN'', ''NBIS'', ''MU'', ''SNOW'', ''APP'', ''TSM'',
     ''ASTS'', ''MRVL'', ''BA'', ''PDD'', ''SOUN'', ''PANW'', ''TEM'', ''LLY'',
     ''ALGN'', ''SPOT'', ''CVNA'', ''SHOP'', ''DUOL'', ''NKE'', ''CSCO'', ''BULL'',
     ''JNJ'', ''LCID'', ''KO'', ''GE'', ''BE'', ''NEE'', ''PEP'', ''RR'', ''IONQ'',
     ''QCOM'', ''LNTH'', ''CFLT'', ''LMND'', ''JOBY'', ''CAT'', ''OPEN'', ''RIVN'',
     ''PFE'', ''CNC'', ''NVO'', ''NOW'', ''CVS'', ''ABT'', ''IBM'', ''JPM'', ''NVAX'',
     ''BRK-B'', ''UNH'', ''AAPL'']"

subsection \<open>Watchlist\<close>

text \<open>
  Lines 96 to 103 of \<open>applyCustomWatchlist\<close>: the list stored in
  \<open>customWatchlistTickers\<close> for the text of the watchlist field.
\<close>

definition parseWatchlist :: "string \<Rightarrow> string list" where
  "parseWatchlist raw =
     (let input = trim raw in
      if input \<noteq> []
      then filter (\<lambda>t. t \<noteq> []) (map (\<lambda>t. toUpperCase (trim t)) (split CHR '','' input))
      else [])"

text \<open>The watchlist contract in the words of the specification, for comparison.\<close>

definition parseWatchlist_spec :: "string \<Rightarrow> string list" where
  "parseWatchlist_spec input =
     filter (\<lambda>t. t \<noteq> []) (map toUpperCase (map trim (split CHR '','' input)))"

subsection \<open>Form 8-K explanation\<close>

text \<open>
  The table of \<open>get8KExplanation\<close> (lines 157 to 180). The two emoji of the source are
  written as their UTF-8 bytes.
\<close>

definition itemExplanations :: "(string \<times> string) list" where
  "itemExplanations =
    [(''1.01'', ''Company signed an important contract''),
     (''1.02'', ''Major contract terminated or cancelled''),
     (''1.03'', [CHR 0xF0, CHR 0x9F, CHR 0x9A, CHR 0xA8] @ '' Bankruptcy or receivership filing''),
     (''2.01'', ''Acquired or sold significant business/assets''),
     (''2.02'', ''Earnings release or financial results''),
     (''2.03'', ''New debt issued (loans, bonds, credit)''),
     (''2.04'', ''Debt acceleration or penalties triggered''),
     (''2.05'', ''Restructuring, layoffs, or plant closures''),
     (''2.06'', ''Large asset write-downs or impairments''),
     (''3.01'', [CHR 0xF0, CHR 0x9F, CHR 0x9A, CHR 0xA8] @ '' Risk of delisting from exchange''),
     (''3.02'', ''Private stock sale (unregistered)''),
     (''3.03'', ''Changes to shareholder rights or dividends''),
     (''4.01'', ''Auditor changed (fired or resigned)''),
     (''4.02'', [CHR 0xF0, CHR 0x9F, CHR 0x9A, CHR 0xA9]
                @ '' Financial restatement likely - accounting issue''),
     (''5.01'', ''Change in company ownership/control''),
     (''5.02'', ''CEO/CFO or director change''),
     (''5.03'', ''Corporate governance rules updated''),
     (''5.04'', ''Employee stock trading temporarily suspended''),
     (''5.05'', ''Code of ethics amended or waived''),
     (''7.01'', ''Public disclosure of material information''),
     (''8.01'', ''Other material event (lawsuit, investigation, etc.)''),
     (''9.01'', ''Financial statements and exhibits attached'')]"

text \<open>
  \<open>itemExplanations\<close> is an object literal, so \<open>itemExplanations[key]\<close> also finds the
  properties every object inherits from \<open>Object.prototype\<close>. Their values are functions
  (an object for \<open>__proto__\<close>), hence truthy; in a template string they print as the host
  prints a native function.
\<close>

definition objectPrototypeKeys :: "string list" where
  "objectPrototypeKeys =
    [''constructor'', ''__defineGetter__'', ''__defineSetter__'', ''hasOwnProperty'',
     ''__lookupGetter__'', ''__lookupSetter__'', ''isPrototypeOf'', ''propertyIsEnumerable'',
     ''toString'', ''valueOf'', ''__proto__'', ''toLocaleString'']"

datatype property = Own string | Inherited string | Undefined

definition getProperty :: "string \<Rightarrow> property" where
  "getProperty key =
     (case map_of itemExplanations key of
        Some e \<Rightarrow> Own e
      | None \<Rightarrow> if key \<in> set objectPrototypeKeys then Inherited key else Undefined)"

definition truthy :: "property \<Rightarrow> bool" where
  "truthy p = (case p of Own e \<Rightarrow> e \<noteq> [] | Inherited k \<Rightarrow> True | Undefined \<Rightarrow> False)"

definition propertyText :: "property \<Rightarrow> string" where
  "propertyText p =
     (case p of
        Own e \<Rightarrow> e
      | Inherited k \<Rightarrow>
          (if k = ''__proto__'' then ''[object Object]''
           else ''function '' @ (if k = ''constructor'' then ''Object'' else k)
                @ ''() { [native code] }'')
      | Undefined \<Rightarrow> ''undefined'')"

text \<open>
  The guard of line 186 and the normalisation of lines 187 and 188. On a value that is
  neither an array nor a string the guard may hold (an object with a positive \<open>length\<close>)
  or not; the normalised list is empty either way, so nothing is described.
\<close>

definition itemsGuard :: "itemsValue \<Rightarrow> bool" where
  "itemsGuard i =
     (case i of NoValue \<Rightarrow> False | ArrayValue xs \<Rightarrow> xs \<noteq> [] | StringValue s \<Rightarrow> s \<noteq> []
      | OtherValue \<Rightarrow> True)"

definition normaliseItems :: "itemsValue \<Rightarrow> element list" where
  "normaliseItems i =
     (case i of ArrayValue xs \<Rightarrow> xs
      | StringValue s \<Rightarrow> map (\<lambda>i. Str (trim i)) (split CHR '','' s)
      | NoValue \<Rightarrow> [] | OtherValue \<Rightarrow> [])"

definition itemSpan :: "string \<Rightarrow> string" where
  \<open>itemSpan trimmedItem =
     ''<span class="item-code">Item '' @ trimmedItem
     @ ''</span><span class="item-description">'' @ propertyText (getProperty trimmedItem)
     @ ''</span>''\<close>

text \<open>
  The loop of lines 194 to 201, with \<open>descriptions\<close> as its accumulator. \<open>item.trim()\<close>
  raises a \<open>TypeError\<close> on an element that is not a string.
\<close>

fun describeItems :: "element list \<Rightarrow> string list \<Rightarrow> error + string list" where
  "describeItems [] descriptions = Inr descriptions"
| "describeItems (item # rest) descriptions =
     (case item of
        NonString \<Rightarrow> Inl TypeError
      | Str text \<Rightarrow>
          (let trimmedItem = trim text in
           if truthy (getProperty trimmedItem)
           then describeItems rest (descriptions @ [itemSpan trimmedItem])
           else describeItems rest descriptions))"

definition defaultExplanation :: string where
  "defaultExplanation = ''Material company event requiring SEC disclosure''"

text \<open>
  \<open>get8KExplanation\<close> (lines 155 to 213). Of its argument it reads \<open>filing.items\<close> only
  (\<open>filing.symbol\<close> goes to the log), so the model takes that value.
\<close>

definition get8KExplanation :: "itemsValue \<Rightarrow> error + string" where
  \<open>get8KExplanation filingItems =
     (if itemsGuard filingItems then
        (case describeItems (normaliseItems filingItems) [] of
           Inl e \<Rightarrow> Inl e
         | Inr descriptions \<Rightarrow>
             if descriptions \<noteq> []
             then Inr (''<div style="line-height: 1.8;">'' @ join ''<br>'' descriptions @ ''</div>'')
             else Inr defaultExplanation)
      else Inr defaultExplanation)\<close>

subsection \<open>Form 4 table\<close>

definition renderForm4Table :: "state \<Rightarrow> state" where
  "renderForm4Table s =
     s\<lparr>el_form4Body :=
         (if filteredTrades s = [] then NoTradesMatch else TradeRows (filteredTrades s))\<rparr>"

subsection \<open>Form 8-K table\<close>

definition filingComparator :: "(string \<Rightarrow> rat option) \<Rightarrow> string \<Rightarrow> filing \<Rightarrow> filing \<Rightarrow> rat option" where
  "filingComparator D sortOrder a b =
     (let dateA = D (filedDate a); dateB = D (filedDate b) in
      if sortOrder = ''newest'' then dateDiff dateB dateA else dateDiff dateA dateB)"

text \<open>Lines 224 to 240 of \<open>renderForm8kTable\<close>: the filings that are displayed, in order.\<close>

definition displayForm8k ::
  "(string \<Rightarrow> rat option) \<Rightarrow> string list \<Rightarrow> string \<Rightarrow> filing list \<Rightarrow> filing list" where
  "displayForm8k D watchlist sortOrder fs =
     jsSort (filingComparator D sortOrder)
       (if watchlist \<noteq> [] then filter (\<lambda>filing. symbol filing \<in> set watchlist) fs else fs)"

text \<open>
  The rows of lines 253 to 292: each displayed filing with its explanation. A raise in
  \<open>get8KExplanation\<close> leaves the \<open>map\<close> and the function before anything is written.
\<close>

fun renderRows :: "filing list \<Rightarrow> error + (filing \<times> string) list" where
  "renderRows [] = Inr []"
| "renderRows (filing # rest) =
     (case get8KExplanation (valueOf (items filing)) of
        Inl e \<Rightarrow> Inl e
      | Inr explanation \<Rightarrow>
          (case renderRows rest of
             Inl e \<Rightarrow> Inl e
           | Inr rows \<Rightarrow> Inr ((filing, explanation) # rows)))"

definition renderForm8kTable :: "(string \<Rightarrow> rat option) \<Rightarrow> state \<Rightarrow> state" where
  "renderForm8kTable D s =
     (let displayed = displayForm8k D (customWatchlistTickers s) (form8kSortOrder s) (form8kData s) in
      if displayed = [] then s\<lparr>el_form8kBody := NoFilingsAvailable\<rparr>
      else (case renderRows displayed of
              Inl e \<Rightarrow> s
            | Inr rows \<Rightarrow> s\<lparr>el_form8kBody := FilingRows rows\<rparr>))"

text \<open>Whether \<open>renderForm8kTable\<close> raises in a state: its caller then runs no further.\<close>

definition form8kRaises :: "(string \<Rightarrow> rat option) \<Rightarrow> state \<Rightarrow> bool" where
  "form8kRaises D s =
     (case renderRows (displayForm8k D (customWatchlistTickers s) (form8kSortOrder s) (form8kData s)) of
        Inl e \<Rightarrow> True
      | Inr rows \<Rightarrow> False)"

definition applyForm8KSort :: "(string \<Rightarrow> rat option) \<Rightarrow> state \<Rightarrow> state" where
  "applyForm8KSort D s = renderForm8kTable D (s\<lparr>form8kSortOrder := in_sort8K s\<rparr>)"

subsection \<open>Filters\<close>

text \<open>The callback of \<open>tradesData.filter\<close> (lines 304 to 318), one early return per rule.\<close>

definition passesFilter :: "string \<Rightarrow> string \<Rightarrow> string list \<Rightarrow> rat \<Rightarrow> trade \<Rightarrow> bool" where
  "passesFilter ftype fticker watchlist minValue t =
     (if ftype \<noteq> ''all'' \<and> type t \<noteq> ftype then False
      else if fticker \<noteq> [] \<and> \<not> str_includes (symbol t) fticker then False
      else if watchlist \<noteq> [] \<and> symbol t \<notin> set watchlist then False
      else if jsLess (totalValue t) minValue then False
      else True)"

text \<open>The comparator of \<open>filteredTrades.sort\<close> (lines 321 to 325).\<close>

definition tradeComparator :: "(string \<Rightarrow> rat option) \<Rightarrow> string \<Rightarrow> trade \<Rightarrow> trade \<Rightarrow> rat option" where
  "tradeComparator D sortBy a b =
     (if sortBy = ''value'' then numDiff (totalValue b) (totalValue a)
      else if sortBy = ''shares'' then Some (shares b - shares a)
      else dateDiff (D (filingDate b)) (D (filingDate a)))"

text \<open>\<open>parseFloat(...) || 0\<close>: \<open>NaN\<close> and \<open>0\<close> both give \<open>0\<close>.\<close>

definition minValueOf :: "rat option \<Rightarrow> rat" where
  "minValueOf p = (case p of None \<Rightarrow> 0 | Some v \<Rightarrow> if v = 0 then 0 else v)"

definition applyFilters :: "(string \<Rightarrow> rat option) \<Rightarrow> state \<Rightarrow> state" where
  "applyFilters D s =
     (let ftype = in_filterType s;
          fticker = toUpperCase (in_filterTicker s);
          minValue = minValueOf (in_filterMinValue s);
          sortBy = in_sortBy s;
          kept = filter (passesFilter ftype fticker (customWatchlistTickers s) minValue) (tradesData s);
          s1 = s\<lparr>filteredTrades := jsSort (tradeComparator D sortBy) kept\<rparr>
      in renderForm8kTable D (renderForm4Table s1))"

definition resetFilters :: "(string \<Rightarrow> rat option) \<Rightarrow> state \<Rightarrow> state" where
  "resetFilters D s =
     applyFilters D
       (s\<lparr>in_filterType := ''all'', in_filterTicker := '''',
          in_filterMinValue := Some 100000, in_sortBy := ''date''\<rparr>)"

definition applyCustomWatchlist :: "(string \<Rightarrow> rat option) \<Rightarrow> state \<Rightarrow> state" where
  "applyCustomWatchlist D s =
     applyFilters D (s\<lparr>customWatchlistTickers := parseWatchlist (in_customWatchlist s)\<rparr>)"

definition clearCustomWatchlist :: "(string \<Rightarrow> rat option) \<Rightarrow> state \<Rightarrow> state" where
  "clearCustomWatchlist D s =
     applyFilters D (s\<lparr>customWatchlistTickers := [], in_customWatchlist := ''''\<rparr>)"

subsection \<open>Summary cells\<close>

definition formatTotalValue :: "rat \<Rightarrow> cell" where
  "formatTotalValue v =
     (if 1000000000 \<le> v then Dollars (v / 1000000000) ''B''
      else if 1000000 \<le> v then Dollars (v / 1000000) ''M''
      else if 1000 \<le> v then Dollars (v / 1000) ''K''
      else Dollars v '''')"

text \<open>
  \<open>updateStats\<close> (lines 65 to 90). The size of the \<open>Set\<close> of symbols is the number of
  distinct symbols.
\<close>

definition updateStats :: "feed_stats option \<Rightarrow> state \<Rightarrow> state" where
  "updateStats st s =
     (case st of
        None \<Rightarrow> s
      | Some json \<Rightarrow>
          s\<lparr>el_totalAlerts := LocaleNumber (stats_totalAlerts json),
            el_totalBuys := LocaleNumber (stats_buys json),
            el_totalSells := LocaleNumber (stats_sells json),
            el_totalValue := formatTotalValue (stats_totalValue json),
            el_total8K := LocaleNumber (of_nat (length (form8kData s))),
            el_activeTickers :=
              LocaleNumber (of_nat (length (remdups
                (map symbol (tradesData s) @ map symbol (form8kData s)))))\<rparr>)"

subsection \<open>Charts\<close>

definition valueBuckets :: "(string \<times> nat) list" where
  "valueBuckets =
    [(''<$50K'', 0), (''$50K-$100K'', 0), (''$100K-$500K'', 0),
     (''$500K-$1M'', 0), (''$1M-$5M'', 0), (''>$5M'', 0)]"

text \<open>\<open>buckets[label]++\<close> on an object that has the key \<open>label\<close>.\<close>

definition increment :: "string \<Rightarrow> (string \<times> nat) list \<Rightarrow> (string \<times> nat) list" where
  "increment label buckets = map (\<lambda>(k, n). if k = label then (k, n + 1) else (k, n)) buckets"

text \<open>
  The chain of comparisons of lines 424 to 429: the bucket a value is counted in. A
  missing value fails every comparison.
\<close>

definition bucketOf :: "rat option \<Rightarrow> string" where
  "bucketOf val =
     (if jsLess val 50000 then ''<$50K''
      else if jsLess val 100000 then ''$50K-$100K''
      else if jsLess val 500000 then ''$100K-$500K''
      else if jsLess val 1000000 then ''$500K-$1M''
      else if jsLess val 5000000 then ''$1M-$5M''
      else ''>$5M'')"

definition valueHistogram :: "trade list \<Rightarrow> (string \<times> nat) list" where
  "valueHistogram ts = foldl (\<lambda>buckets t. increment (bucketOf (totalValue t)) buckets) valueBuckets ts"

definition renderCharts :: "state \<Rightarrow> state" where
  "renderCharts s =
     s\<lparr>chartData := Some
         \<lparr>buySell = (length (filter (\<lambda>t. type t = ''BUY'') (tradesData s)),
                     length (filter (\<lambda>t. type t = ''SELL'') (tradesData s))),
          valueChart = valueHistogram (tradesData s)\<rparr>\<rparr>"

subsection \<open>Loading the feed\<close>

text \<open>The \<open>catch\<close> block of \<open>loadData\<close> (lines 53 to 62).\<close>

definition loadFailed :: "state \<Rightarrow> state" where
  "loadFailed s = s\<lparr>el_form4Body := NoDataAvailable\<rparr>"

text \<open>\<open>await fetch(...)\<close> followed by \<open>await response.json()\<close>: the document, or a raise.\<close>

definition fetchJson :: "'d fetched \<Rightarrow> 'd parsed option" where
  "fetchJson r = (case r of NetworkError \<Rightarrow> None | Response ok body \<Rightarrow> body)"

text \<open>
  \<open>loadData\<close> (lines 28 to 63). Each statement of the \<open>try\<close> block that can raise is a
  case whose failing branch is the \<open>catch\<close> block, entered with the state as the
  statements before it left it.
\<close>

definition loadData :: "(string \<Rightarrow> rat option) \<Rightarrow> feed \<Rightarrow> state \<Rightarrow> state" where
  "loadData D f s =
     (case fetchJson (tradesFeed f) of
        None \<Rightarrow> loadFailed s
      | Some JsonNull \<Rightarrow> loadFailed s
      | Some (JsonDoc tradesDoc) \<Rightarrow>
          (let s1 = s\<lparr>tradesData := (case trades tradesDoc of None \<Rightarrow> [] | Some ts \<Rightarrow> ts)\<rparr> in
           case fetchJson (form8kFeed f) of
             None \<Rightarrow> loadFailed s1
           | Some JsonNull \<Rightarrow> loadFailed s1
           | Some (JsonDoc form8kDoc) \<Rightarrow>
               (let s2 = s1\<lparr>form8kData := (case filings form8kDoc of None \<Rightarrow> [] | Some fs \<Rightarrow> fs)\<rparr>;
                    s3 = updateStats (stats tradesDoc) s2;
                    s4 = applyFilters D s3
                in if form8kRaises D s3 then loadFailed s4
                   else (let s5 = renderForm8kTable D s4;
                             s6 = renderCharts s5
                         in s6\<lparr>el_lastUpdate := LastUpdated (lastUpdated tradesDoc)\<rparr>))))"

text \<open>
  Lines 504 and 507: \<open>loadData\<close> runs once when the page loads and again at every tick of
  the five-minute timer, whatever the earlier runs did. \<open>refresh\<close> runs it over the feeds
  the successive ticks see, one run after the other (a run that overlaps the next one is
  not modelled).
\<close>

fun refresh :: "(string \<Rightarrow> rat option) \<Rightarrow> feed list \<Rightarrow> state \<Rightarrow> state" where
  "refresh D [] s = s"
| "refresh D (f # fs) s = refresh D fs (loadData D f s)"

section \<open>The contracts in the words of the specification\<close>





text \<open>
  The shapes of \<open>items\<close> in the data model: absent, a string, or an array of strings.
  \<open>itemCodes\<close> are the trimmed codes that are looked up in the table.
\<close>

definition stringItems :: "itemsValue \<Rightarrow> bool" where
  "stringItems i =
     (case i of NoValue \<Rightarrow> True | StringValue s \<Rightarrow> True | ArrayValue xs \<Rightarrow> NonString \<notin> set xs
      | OtherValue \<Rightarrow> False)"

definition itemCodes :: "itemsValue \<Rightarrow> string list" where
  "itemCodes i =
     concat (map (\<lambda>e. case e of Str text \<Rightarrow> [trim text] | NonString \<Rightarrow> []) (normaliseItems i))"

text \<open>The watchlist rule of the filing pipeline.\<close>

definition watchlistRule_spec :: "string list \<Rightarrow> filing \<Rightarrow> bool" where
  "watchlistRule_spec watchlist r = (watchlist = [] \<or> symbol r \<in> set watchlist)"

text \<open>
  A list of filings is in date order when every two of its filings whose dates are both
  valid stand in that order; a filing with an invalid date constrains nothing.
\<close>

definition newestFirst :: "(string \<Rightarrow> rat option) \<Rightarrow> filing list \<Rightarrow> bool" where
  "newestFirst D fs =
     sorted_wrt (\<lambda>a b. case D (filedDate a) of None \<Rightarrow> True
                        | Some x \<Rightarrow> (case D (filedDate b) of None \<Rightarrow> True | Some y \<Rightarrow> y \<le> x)) fs"

definition oldestFirst :: "(string \<Rightarrow> rat option) \<Rightarrow> filing list \<Rightarrow> bool" where
  "oldestFirst D fs =
     sorted_wrt (\<lambda>a b. case D (filedDate a) of None \<Rightarrow> True
                        | Some x \<Rightarrow> (case D (filedDate b) of None \<Rightarrow> True | Some y \<Rightarrow> x \<le> y)) fs"

section \<open>Example records\<close>

text \<open>Concrete records and a concrete page state, for evaluating the script.\<close>

definition exampleTrade :: "string \<Rightarrow> string \<Rightarrow> rat \<Rightarrow> string \<Rightarrow> trade" where
  "exampleTrade tk ty v d =
     \<lparr>symbol = tk, type = ty, name = ''Insider'', shares = 1, price = Some v,
      totalValue = Some v, transactionCode = None, transactionDescription = None,
      transactionDate = d, filingDate = d, secLink = None\<rparr>"


definition exampleFiling :: "string \<Rightarrow> items \<Rightarrow> string \<Rightarrow> filing" where
  "exampleFiling tk its d =
     \<lparr>symbol = tk, items = its, reportDate = ''Unknown'', filedDate = d,
      acceptedDate = ''Unknown'', reportUrl = None\<rparr>"

text \<open>
  The globals as lines 4 to 10 initialise them and the filter controls as \<open>resetFilters\<close>
  leaves them; the page elements hold placeholders.
\<close>

definition pageLoadState :: state where
  "pageLoadState =
     \<lparr>tradesData = [], form8kData = [], filteredTrades = [], chartData = None,
      customWatchlistTickers = [], form8kSortOrder = ''newest'',
      in_filterType = ''all'', in_filterTicker = '''', in_filterMinValue = Some 100000,
      in_sortBy = ''date'', in_customWatchlist = '''', in_sort8K = ''newest'',
      el_totalAlerts = LocaleNumber 0, el_totalBuys = LocaleNumber 0,
      el_totalSells = LocaleNumber 0, el_totalValue = Dollars 0 '''',
      el_total8K = LocaleNumber 0, el_activeTickers = LocaleNumber 0,
      el_lastUpdate = LastUpdated None, el_form4Body = NoTradesMatch,
      el_form8kBody = NoFilingsAvailable\<rparr>"

text \<open>
  A feed whose two requests are answered with JSON objects, and one whose filings
  request is rejected after the trades document has arrived.
\<close>

definition exampleFeed :: "trade list option \<Rightarrow> feed_stats option \<Rightarrow> filing list option \<Rightarrow> feed" where
  "exampleFeed ts st fs =
     \<lparr>tradesFeed = Response True (Some (JsonDoc \<lparr>trades = ts, stats = st, lastUpdated = None\<rparr>)),
      form8kFeed = Response True (Some (JsonDoc \<lparr>filings = fs\<rparr>))\<rparr>"

definition filingsRejectedFeed :: "trade list option \<Rightarrow> feed" where
  "filingsRejectedFeed ts =
     \<lparr>tradesFeed = Response True (Some (JsonDoc \<lparr>trades = ts, stats = None, lastUpdated = None\<rparr>)),
      form8kFeed = NetworkError\<rparr>"

text \<open>A feed whose trades request is answered \<open>404\<close> with a JSON error object.\<close>

definition notFoundFeed :: feed where
  "notFoundFeed =
     \<lparr>tradesFeed = Response False (Some (JsonDoc \<lparr>trades = None, stats = None, lastUpdated = None\<rparr>)),
      form8kFeed = Response False (Some (JsonDoc \<lparr>filings = None\<rparr>))\<rparr>"


section \<open>String lemmas\<close>

lemma split_ne [simp]: "split c s \<noteq> []"
  by (induction s) (auto split: list.splits)

lemma trim_ws_cons [simp]: "isWhiteSpace w \<Longrightarrow> trim (w # t) = trim t"
  by (simp add: trim_def)

lemma trim_ws_snoc [simp]: "isWhiteSpace w \<Longrightarrow> trim (t @ [w]) = trim t"
proof (cases "\<forall>x\<in>set t. isWhiteSpace x")
  case True
  assume w: "isWhiteSpace w"
  have "dropWhile isWhiteSpace t = []" using True by simp
  moreover have "dropWhile isWhiteSpace (t @ [w]) = []" using True w by simp
  ultimately show ?thesis by (simp only: trim_def)
next
  case False
  assume w: "isWhiteSpace w"
  from False obtain x where "x \<in> set t" "\<not> isWhiteSpace x" by blast
  then have "dropWhile isWhiteSpace (t @ [w]) = dropWhile isWhiteSpace t @ [w]"
    by (rule dropWhile_append1)
  with w show ?thesis by (simp add: trim_def)
qed

lemma split_snoc:
  "w \<noteq> c \<Longrightarrow> split c (s @ [w]) = butlast (split c s) @ [last (split c s) @ [w]]"
proof (induction s)
  case Nil
  then show ?case by simp
next
  case (Cons x xs)
  then show ?case
    by (cases "split c xs"; cases "split c (xs @ [w])") (auto split: if_splits)
qed

lemma map_trim_split_cons:
  assumes "isWhiteSpace w" "w \<noteq> c"
  shows "map trim (split c (w # s)) = map trim (split c s)"
proof -
  obtain t ts where "split c s = t # ts" by (cases "split c s") auto
  with assms show ?thesis by simp
qed

lemma map_trim_split_snoc:
  assumes "isWhiteSpace w" "w \<noteq> c"
  shows "map trim (split c (s @ [w])) = map trim (split c s)"
proof -
  obtain ts t where "split c s = ts @ [t]" by (cases "split c s" rule: rev_cases) auto
  with assms show ?thesis by (simp add: split_snoc)
qed

lemma map_trim_split_dropWhile:
  assumes "\<not> isWhiteSpace c"
  shows "map trim (split c (dropWhile isWhiteSpace s)) = map trim (split c s)"
proof (induction s)
  case Nil
  then show ?case by simp
next
  case (Cons x xs)
  show ?case
  proof (cases "isWhiteSpace x")
    case True
    then have "x \<noteq> c" using assms by auto
    with True Cons show ?thesis by (simp add: map_trim_split_cons del: split.simps)
  next
    case False
    then show ?thesis by simp
  qed
qed

lemma map_trim_split_dropWhile_rev:
  assumes "\<not> isWhiteSpace c"
  shows "map trim (split c (rev (dropWhile isWhiteSpace (rev s)))) = map trim (split c s)"
proof (induction s rule: rev_induct)
  case Nil
  then show ?case by simp
next
  case (snoc x xs)
  show ?case
  proof (cases "isWhiteSpace x")
    case True
    then have "x \<noteq> c" using assms by auto
    with True snoc show ?thesis by (simp add: map_trim_split_snoc del: split.simps)
  next
    case False
    then show ?thesis by simp
  qed
qed

lemma map_trim_split_trim:
  "\<not> isWhiteSpace c \<Longrightarrow> map trim (split c (trim s)) = map trim (split c s)"
  unfolding trim_def[of s]
  by (simp add: map_trim_split_dropWhile_rev map_trim_split_dropWhile)

lemma comma_not_ws: "\<not> isWhiteSpace CHR '',''"
  by (simp add: isWhiteSpace_def)

lemma toUpperCase_Nil_iff [simp]: "toUpperCase t = [] \<longleftrightarrow> t = []"
  by (simp add: toUpperCase_def)

section \<open>Watchlist parsing\<close>

lemma parseWatchlist_eq_spec: "parseWatchlist s = parseWatchlist_spec s"
proof (cases "trim s = []")
  case True
  have "map trim (split CHR '','' s) = map trim (split CHR '','' (trim s))"
    by (simp add: map_trim_split_trim comma_not_ws)
  also have "\<dots> = [[]]" by (simp only: True split.simps list.map) (simp add: trim_def)
  finally have "map trim (split CHR '','' s) = [[]]" .
  then show ?thesis using True
    by (simp add: parseWatchlist_def parseWatchlist_spec_def)
next
  case False
  have "map (\<lambda>t. toUpperCase (trim t)) (split CHR '','' (trim s))
        = map toUpperCase (map trim (split CHR '','' (trim s)))" by simp
  also have "\<dots> = map toUpperCase (map trim (split CHR '','' s))"
    by (simp only: map_trim_split_trim[OF comma_not_ws])
  finally show ?thesis using False
    by (simp add: parseWatchlist_def parseWatchlist_spec_def Let_def del: map_map)
qed

lemma parseWatchlist_empty: "parseWatchlist '''' = []"
  by (simp add: parseWatchlist_def trim_def)

lemma parseWatchlist_blank: "parseWatchlist ''   '' = []"
  by (simp add: parseWatchlist_def trim_def isWhiteSpace_def)

lemma parseWatchlist_example:
  "parseWatchlist ''aapl, msft ,, nvda'' = [''AAPL'', ''MSFT'', ''NVDA'']"
  by (simp add: parseWatchlist_def trim_def isWhiteSpace_def toUpperCase_def upperChar_def)

text \<open>
  C4. For every input string the watchlist stored by \<open>applyCustomWatchlist\<close> is what the
  contract describes: the input split on commas, each token trimmed and uppercased, empty
  tokens dropped. The empty input and the all-blank input give the empty watchlist, and
  \<open>aapl, msft ,, nvda\<close> gives AAPL, MSFT, NVDA.
\<close>

theorem C4_parseWatchlist:
  "parseWatchlist s = parseWatchlist_spec s
   \<and> parseWatchlist '''' = []
   \<and> parseWatchlist ''   '' = []
   \<and> parseWatchlist ''aapl, msft ,, nvda'' = [''AAPL'', ''MSFT'', ''NVDA'']"
  by (simp only: parseWatchlist_eq_spec[symmetric] parseWatchlist_empty parseWatchlist_blank
      parseWatchlist_example simp_thms)

theorem C4_parseWatchlist_witness:
  "parseWatchlist '' tsla ,, Brk-b , '' = [''TSLA'', ''BRK-B'']
   \<and> parseWatchlist_spec '' tsla ,, Brk-b , '' = [''TSLA'', ''BRK-B'']"
proof -
  have "parseWatchlist '' tsla ,, Brk-b , '' = [''TSLA'', ''BRK-B'']"
    by (simp add: parseWatchlist_def trim_def isWhiteSpace_def toUpperCase_def upperChar_def)
  with C4_parseWatchlist[of "'' tsla ,, Brk-b , ''"] show ?thesis by simp
qed

section \<open>Sorting lemmas\<close>

text \<open>Whatever the comparator, the result is a permutation of the input.\<close>

lemma takeRun_append: "takeRun cmp d p xs = (run, others) \<Longrightarrow> run @ others = xs"
  by (induction xs arbitrary: p run others) (auto simp: Let_def split: if_splits prod.splits)

lemma mset_countAndMakeRun:
  "countAndMakeRun cmp xs = (run, others) \<Longrightarrow> mset run + mset others = mset xs"
  by (induction cmp xs rule: countAndMakeRun.induct)
     (auto simp: Let_def split: prod.splits if_splits dest!: takeRun_append)

lemma mset_binaryInsert [simp]: "mset (binaryInsert cmp arr p) = add_mset p (mset arr)"
proof -
  have "mset (take n arr) + mset (drop n arr) = mset arr" for n
    by (metis append_take_drop_id mset_append)
  then show ?thesis by (simp add: binaryInsert_def Let_def)
qed

lemma mset_foldl_binaryInsert:
  "mset (foldl (binaryInsert cmp) run others) = mset run + mset others"
  by (induction others arbitrary: run) simp_all

lemma mset_insertBy [simp]: "mset (insertBy cmp x ys) = add_mset x (mset ys)"
  by (induction ys) auto

lemma mset_foldr_insertBy [simp]: "mset (foldr (insertBy cmp) xs []) = mset xs"
  by (induction xs) simp_all

lemma mset_jsSort [simp]: "mset (jsSort cmp xs) = mset xs"
  by (auto simp: jsSort_def mset_foldl_binaryInsert mset_countAndMakeRun split: prod.splits)

lemma set_jsSort [simp]: "set (jsSort cmp xs) = set xs"
  by (metis mset_jsSort set_mset_mset)

text \<open>
  On a comparator that orders by a key (negative exactly where the key ascends, positive
  exactly where it descends) the result is the stable sort by that key.
\<close>

lemma insertBy_insort_key:
  assumes "\<And>y. y \<in> set ys \<Longrightarrow> positive (cmp x y) \<longleftrightarrow> k y < (k x :: rat)"
  shows "insertBy cmp x ys = insort_key k x ys"
  using assms by (induction ys) (auto simp: not_less)

lemma foldr_insertBy_sort_key:
  assumes "\<And>x y. x \<in> set xs \<Longrightarrow> y \<in> set xs \<Longrightarrow> positive (cmp x y) \<longleftrightarrow> k y < (k x :: rat)"
  shows "foldr (insertBy cmp) xs [] = sort_key k xs"
  using assms
proof (induction xs)
  case Nil
  show ?case by simp
next
  case (Cons x xs)
  have ih: "foldr (insertBy cmp) xs [] = sort_key k xs" using Cons by simp
  have "insertBy cmp x (sort_key k xs) = insort_key k x (sort_key k xs)"
    using Cons.prems by (intro insertBy_insort_key) simp
  then show ?case by (simp add: ih)
qed

lemma binarySearch_bounds:
  assumes "\<And>y. y \<in> set arr \<Longrightarrow> negative (cmp p y) \<longleftrightarrow> k p < (k y :: rat)"
      and "sorted (map k arr)"
      and "left \<le> right" "right \<le> length arr"
      and "\<forall>j<left. k (arr ! j) \<le> k p"
      and "\<forall>j. right \<le> j \<and> j < length arr \<longrightarrow> k p < k (arr ! j)"
  shows "binarySearch cmp p arr left right \<le> length arr
         \<and> (\<forall>j<binarySearch cmp p arr left right. k (arr ! j) \<le> k p)
         \<and> (\<forall>j. binarySearch cmp p arr left right \<le> j \<and> j < length arr \<longrightarrow> k p < k (arr ! j))"
  using assms
proof (induction cmp p arr left right rule: binarySearch.induct)
  case (1 cmp pivot arr left right)
  show ?case
  proof (cases "left < right")
    case False
    then have "binarySearch cmp pivot arr left right = left"
      by (subst binarySearch.simps) simp
    moreover have "left = right" using False "1.prems"(3) by simp
    ultimately show ?thesis using "1.prems"(4,5,6) by simp
  next
    case True
    define mid where "mid = left + (right - left) div 2"
    have mid: "left \<le> mid" "mid < right" "mid < length arr"
      using True "1.prems"(4) by (simp_all add: mid_def)
    have srt: "\<And>i j. i \<le> j \<Longrightarrow> j < length arr \<Longrightarrow> k (arr ! i) \<le> k (arr ! j)"
      using "1.prems"(2) by (simp add: sorted_iff_nth_mono)
    show ?thesis
    proof (cases "negative (cmp pivot (arr ! mid))")
      case neg: True
      then have lt: "k pivot < k (arr ! mid)" using "1.prems"(1) mid by simp
      have "\<forall>j. mid \<le> j \<and> j < length arr \<longrightarrow> k pivot < k (arr ! j)"
        using lt srt by (meson less_le_trans)
      with "1.IH"(1)[OF True mid_def neg "1.prems"(1,2)] mid "1.prems"(5)
      have "binarySearch cmp pivot arr left mid \<le> length arr
         \<and> (\<forall>j<binarySearch cmp pivot arr left mid. k (arr ! j) \<le> k pivot)
         \<and> (\<forall>j. binarySearch cmp pivot arr left mid \<le> j \<and> j < length arr \<longrightarrow> k pivot < k (arr ! j))"
        by simp
      then show ?thesis
        using True neg by (simp add: binarySearch.simps[of cmp pivot arr left right] mid_def Let_def)
    next
      case nonneg: False
      then have le: "k (arr ! mid) \<le> k pivot" using "1.prems"(1) mid by (simp add: not_less)
      have "\<forall>j<mid + 1. k (arr ! j) \<le> k pivot"
      proof (intro allI impI)
        fix j assume "j < mid + 1"
        then have "k (arr ! j) \<le> k (arr ! mid)" using srt[of j mid] mid by simp
        with le show "k (arr ! j) \<le> k pivot" by simp
      qed
      with "1.IH"(2)[OF True mid_def nonneg "1.prems"(1,2)] mid "1.prems"(4,6)
      have "binarySearch cmp pivot arr (mid + 1) right \<le> length arr
         \<and> (\<forall>j<binarySearch cmp pivot arr (mid + 1) right. k (arr ! j) \<le> k pivot)
         \<and> (\<forall>j. binarySearch cmp pivot arr (mid + 1) right \<le> j \<and> j < length arr \<longrightarrow> k pivot < k (arr ! j))"
        by simp
      then show ?thesis
        using True nonneg by (simp add: binarySearch.simps[of cmp pivot arr left right] mid_def Let_def)
    qed
  qed
qed

lemma binaryInsert_sort_key:
  assumes "\<And>y. y \<in> set ys \<Longrightarrow> negative (cmp p y) \<longleftrightarrow> k p < (k y :: rat)"
  shows "binaryInsert cmp (sort_key k ys) p = sort_key k (ys @ [p])"
proof -
  let ?arr = "sort_key k ys"
  define i where "i = binarySearch cmp p ?arr 0 (length ?arr)"
  have b: "i \<le> length ?arr" "\<And>j. j < i \<Longrightarrow> k (?arr ! j) \<le> k p"
    "\<And>j. i \<le> j \<Longrightarrow> j < length ?arr \<Longrightarrow> k p < k (?arr ! j)"
    using binarySearch_bounds[of ?arr cmp p k 0 "length ?arr"] assms
    by (simp_all add: i_def)
  have lo: "\<And>x. x \<in> set (take i ?arr) \<Longrightarrow> k x \<le> k p"
    using b(1,2) by (auto simp: in_set_conv_nth)
  have hi: "\<And>x. x \<in> set (drop i ?arr) \<Longrightarrow> k p < k x"
    using b(1,3) by (auto simp: in_set_conv_nth)
  have srt: "sorted (map k (take i ?arr))" "sorted (map k (drop i ?arr))"
    by (simp_all add: sorted_wrt_take sorted_wrt_drop flip: take_map drop_map)
  have res: "binaryInsert cmp ?arr p = take i ?arr @ p # drop i ?arr"
    by (simp add: binaryInsert_def i_def Let_def)
  have "sort_key k (ys @ [p]) = take i ?arr @ p # drop i ?arr"
  proof (rule properties_for_sort_key)
    have "mset (take i ?arr) + mset (drop i ?arr) = mset ?arr"
      by (metis append_take_drop_id mset_append)
    then show "mset (take i ?arr @ p # drop i ?arr) = mset (ys @ [p])" by simp
  next
    show "sorted (map k (take i ?arr @ p # drop i ?arr))"
      using lo hi srt by (fastforce simp: sorted_append)
  next
    fix x
    let ?P = "\<lambda>y. k x = k y"
    have "filter ?P ys = filter ?P ?arr"
      using sort_key_stable[of k "k x" ys] by (simp add: eq_commute[of "k x"])
    also have "\<dots> = filter ?P (take i ?arr) @ filter ?P (drop i ?arr)"
      by (metis append_take_drop_id filter_append)
    finally have ys: "filter ?P ys = filter ?P (take i ?arr) @ filter ?P (drop i ?arr)" .
    have "filter ?P (drop i ?arr) = []" if "k x = k p"
    proof -
      have "\<forall>y \<in> set (drop i ?arr). k y \<noteq> k p" using hi by fastforce
      then show ?thesis by (simp add: filter_empty_conv that eq_commute[of "k p"])
    qed
    then show "filter ?P (take i ?arr @ p # drop i ?arr) = filter ?P (ys @ [p])"
      using ys by auto
  qed
  with res show ?thesis by simp
qed

lemma foldl_binaryInsert_sort_key:
  assumes "\<And>x y. x \<in> set (proc @ others) \<Longrightarrow> y \<in> set (proc @ others)
             \<Longrightarrow> negative (cmp x y) \<longleftrightarrow> k x < (k y :: rat)"
  shows "foldl (binaryInsert cmp) (sort_key k proc) others = sort_key k (proc @ others)"
  using assms
proof (induction others arbitrary: proc)
  case Nil
  show ?case by simp
next
  case (Cons p others)
  have "binaryInsert cmp (sort_key k proc) p = sort_key k (proc @ [p])"
    using Cons.prems by (intro binaryInsert_sort_key) simp
  moreover have "foldl (binaryInsert cmp) (sort_key k (proc @ [p])) others
                 = sort_key k ((proc @ [p]) @ others)"
    using Cons.prems by (intro Cons.IH) simp
  ultimately show ?case by simp
qed

lemma takeRun_ascending:
  assumes "\<And>x y. x \<in> set (p # xs) \<Longrightarrow> y \<in> set (p # xs) \<Longrightarrow> negative (cmp x y) \<longleftrightarrow> k x < (k y :: rat)"
      and "takeRun cmp False p xs = (run, others)"
  shows "sorted (map k (p # run))"
  using assms
proof (induction xs arbitrary: p run others)
  case Nil
  then show ?case by simp
next
  case (Cons c cs)
  show ?case
  proof (cases "negative (cmp c p)")
    case True
    with Cons.prems(2) show ?thesis by simp
  next
    case False
    then obtain r where r: "takeRun cmp False c cs = (r, others)" "run = c # r"
      using Cons.prems(2) by (auto simp: Let_def split: prod.splits)
    have "k p \<le> k c" using False Cons.prems(1)[of c p] by (simp add: not_less)
    moreover have "sorted (map k (c # r))"
      using Cons.prems(1) by (intro Cons.IH[OF _ r(1)]) simp
    ultimately show ?thesis using r(2) by (auto intro: order_trans)
  qed
qed

lemma takeRun_descending:
  assumes "\<And>x y. x \<in> set (p # xs) \<Longrightarrow> y \<in> set (p # xs) \<Longrightarrow> negative (cmp x y) \<longleftrightarrow> k x < (k y :: rat)"
      and "takeRun cmp True p xs = (run, others)"
  shows "sorted_wrt (\<lambda>a b. k b < k a) (p # run)"
  using assms
proof (induction xs arbitrary: p run others)
  case Nil
  then show ?case by simp
next
  case (Cons c cs)
  show ?case
  proof (cases "negative (cmp c p)")
    case False
    with Cons.prems(2) show ?thesis by simp
  next
    case True
    then obtain r where r: "takeRun cmp True c cs = (r, others)" "run = c # r"
      using Cons.prems(2) by (auto simp: Let_def split: prod.splits)
    have "k c < k p" using True Cons.prems(1)[of c p] by simp
    moreover have "sorted_wrt (\<lambda>a b. k b < k a) (c # r)"
      using Cons.prems(1) by (intro Cons.IH[OF _ r(1)]) simp
    ultimately show ?thesis using r(2) by fastforce
  qed
qed

lemma strictly_descending_rev_sort_key:
  assumes "sorted_wrt (\<lambda>a b. k b < (k a :: rat)) xs"
  shows "sort_key k xs = rev xs"
proof (rule properties_for_sort_key)
  show "mset (rev xs) = mset xs" by simp
next
  have "sorted_wrt (\<lambda>a b. k a < k b) (rev xs)"
    using assms by (simp add: sorted_wrt_rev)
  then have "sorted_wrt (\<lambda>a b. k a \<le> k b) (rev xs)"
    by (rule sorted_wrt_mono_rel[rotated]) simp
  then show "sorted (map k (rev xs))" by (simp add: sorted_map)
next
  fix x
  have "length (filter (\<lambda>y. k x = k y) xs) \<le> 1"
    using assms by (induction xs) (auto simp: filter_empty_conv)
  then have "rev (filter (\<lambda>y. k x = k y) xs) = filter (\<lambda>y. k x = k y) xs"
    by (cases "filter (\<lambda>y. k x = k y) xs") (auto simp: Suc_le_eq)
  then show "filter (\<lambda>y. k x = k y) (rev xs) = filter (\<lambda>y. k x = k y) xs"
    by (simp add: rev_filter)
qed

lemma countAndMakeRun_sort_key:
  assumes "\<And>x y. x \<in> set xs \<Longrightarrow> y \<in> set xs \<Longrightarrow> negative (cmp x y) \<longleftrightarrow> k x < (k y :: rat)"
      and "countAndMakeRun cmp xs = (run, others)"
  shows "\<exists>proc. proc @ others = xs \<and> run = sort_key k proc"
proof (cases "(cmp, xs)" rule: countAndMakeRun.cases)
  case (1 c)
  with assms(2) show ?thesis by simp
next
  case (2 c x)
  with assms(2) show ?thesis by auto
next
  case (3 c hi lo rest)
  then have xs: "xs = hi # lo # rest" by simp
  obtain r where r: "takeRun cmp (negative (cmp lo hi)) lo rest = (r, others)"
    and run: "run = (if negative (cmp lo hi) then rev (hi # lo # r) else hi # lo # r)"
    using assms(2) xs by (auto simp: Let_def split: prod.splits)
  have app: "(hi # lo # r) @ others = xs"
    using takeRun_append[OF r] xs by simp
  have H': "\<And>x y. x \<in> set (lo # rest) \<Longrightarrow> y \<in> set (lo # rest) \<Longrightarrow> negative (cmp x y) \<longleftrightarrow> k x < k y"
    using assms(1) xs by simp
  show ?thesis
  proof (cases "negative (cmp lo hi)")
    case True
    then have "k lo < k hi" using assms(1)[of lo hi] xs by simp
    moreover have "sorted_wrt (\<lambda>a b. k b < k a) (lo # r)"
      using takeRun_descending[OF H'] r True by simp
    ultimately have "sorted_wrt (\<lambda>a b. k b < k a) (hi # lo # r)" by fastforce
    then have "sort_key k (hi # lo # r) = rev (hi # lo # r)"
      by (rule strictly_descending_rev_sort_key)
    with True run app show ?thesis by metis
  next
    case False
    then have "k hi \<le> k lo" using assms(1)[of lo hi] xs by (simp add: not_less)
    moreover have "sorted (map k (lo # r))"
      using takeRun_ascending[OF H'] r False by simp
    ultimately have "sorted (map k (hi # lo # r))" by (auto intro: order_trans)
    then have "sort_key k (hi # lo # r) = hi # lo # r"
      by (rule sort_key_id_if_sorted)
    with False run app show ?thesis by metis
  qed
qed

lemma jsSort_sort_key:
  assumes "\<And>x y. x \<in> set xs \<Longrightarrow> y \<in> set xs \<Longrightarrow>
             (negative (cmp x y) \<longleftrightarrow> k x < (k y :: rat)) \<and> (positive (cmp x y) \<longleftrightarrow> k y < k x)"
  shows "jsSort cmp xs = sort_key k xs"
proof (cases "length xs < 64")
  case False
  then show ?thesis
    using assms by (simp add: jsSort_def foldr_insertBy_sort_key)
next
  case True
  obtain run others where c: "countAndMakeRun cmp xs = (run, others)"
    by (cases "countAndMakeRun cmp xs") auto
  then obtain proc where p: "proc @ others = xs" "run = sort_key k proc"
    using countAndMakeRun_sort_key[of xs cmp k run others] assms by blast
  have "foldl (binaryInsert cmp) (sort_key k proc) others = sort_key k (proc @ others)"
    using assms p(1) by (intro foldl_binaryInsert_sort_key) simp
  with True c p show ?thesis by (simp add: jsSort_def)
qed


lemma jsSort_Nil [simp]: "jsSort cmp [] = []"
  by (simp add: jsSort_def)

lemma sorted_jsSort_key:
  assumes "\<And>x y. x \<in> set xs \<Longrightarrow> y \<in> set xs \<Longrightarrow>
             (negative (cmp x y) \<longleftrightarrow> k y < (k x :: rat)) \<and> (positive (cmp x y) \<longleftrightarrow> k x < k y)"
  shows "sorted_wrt (\<lambda>a b. k b \<le> k a) (jsSort cmp xs)"
proof -
  have "jsSort cmp xs = sort_key (\<lambda>x. - k x) xs"
    using assms by (intro jsSort_sort_key) simp
  moreover have "sorted (map (\<lambda>x. - k x) (sort_key (\<lambda>x. - k x) xs))"
    by (rule sorted_sort_key)
  ultimately show ?thesis by (simp add: sorted_map)
qed


section \<open>What the rendering functions leave unchanged\<close>

lemma renderForm4Table_fields [simp]:
  "tradesData (renderForm4Table s) = tradesData s"
  "form8kData (renderForm4Table s) = form8kData s"
  "filteredTrades (renderForm4Table s) = filteredTrades s"
  "customWatchlistTickers (renderForm4Table s) = customWatchlistTickers s"
  "form8kSortOrder (renderForm4Table s) = form8kSortOrder s"
  "el_form4Body (renderForm4Table s)
     = (if filteredTrades s = [] then NoTradesMatch else TradeRows (filteredTrades s))"
  by (simp_all add: renderForm4Table_def)

lemma renderForm8kTable_fields [simp]:
  "tradesData (renderForm8kTable D s) = tradesData s"
  "form8kData (renderForm8kTable D s) = form8kData s"
  "filteredTrades (renderForm8kTable D s) = filteredTrades s"
  "customWatchlistTickers (renderForm8kTable D s) = customWatchlistTickers s"
  "form8kSortOrder (renderForm8kTable D s) = form8kSortOrder s"
  "el_form4Body (renderForm8kTable D s) = el_form4Body s"
  by (simp_all add: renderForm8kTable_def Let_def split: sum.splits)

lemma filteredTrades_applyFilters:
  "filteredTrades (applyFilters D s)
   = jsSort (tradeComparator D (in_sortBy s))
       (filter (passesFilter (in_filterType s) (toUpperCase (in_filterTicker s))
                 (customWatchlistTickers s) (minValueOf (in_filterMinValue s)))
          (tradesData s))"
  by (simp add: applyFilters_def Let_def)

lemma applyFilters_fields [simp]:
  "tradesData (applyFilters D s) = tradesData s"
  "form8kData (applyFilters D s) = form8kData s"
  "customWatchlistTickers (applyFilters D s) = customWatchlistTickers s"
  "form8kSortOrder (applyFilters D s) = form8kSortOrder s"
  by (simp_all add: applyFilters_def Let_def)

section \<open>The trade pipeline\<close>

lemma str_includes_sublist: "str_includes s t \<longleftrightarrow> sublist t s"
  by (induction s) (auto simp: sublist_Cons_right)









section \<open>The filing pipeline\<close>

lemma mset_displayForm8k:
  "mset (displayForm8k D watchlist sortOrder fs) = mset (filter (watchlistRule_spec watchlist) fs)"
  by (simp add: displayForm8k_def watchlistRule_spec_def)

lemma positive_dateDiff [simp]: "positive (dateDiff (Some x) (Some y)) \<longleftrightarrow> y < x"
  by (simp add: positive_def dateDiff_def)

lemma negative_dateDiff [simp]: "negative (dateDiff (Some x) (Some y)) \<longleftrightarrow> x < y"
  by (simp add: negative_def dateDiff_def)

lemma newestFirst_jsSort:
  assumes "\<And>f. f \<in> set fs \<Longrightarrow> D (filedDate f) \<noteq> None"
  shows "newestFirst D (jsSort (filingComparator D ''newest'') fs)"
proof -
  let ?k = "\<lambda>f. the (D (filedDate f))"
  have "sorted_wrt (\<lambda>a b. ?k b \<le> ?k a) (jsSort (filingComparator D ''newest'') fs)"
  proof (rule sorted_jsSort_key)
    fix x y assume "x \<in> set fs" "y \<in> set fs"
    then obtain u v where "D (filedDate x) = Some u" "D (filedDate y) = Some v"
      using assms by blast
    then show "(negative (filingComparator D ''newest'' x y) \<longleftrightarrow> ?k y < ?k x)
               \<and> (positive (filingComparator D ''newest'' x y) \<longleftrightarrow> ?k x < ?k y)"
      by (simp add: filingComparator_def)
  qed
  then show ?thesis
    unfolding newestFirst_def
    by (rule sorted_wrt_mono_rel[rotated]) (auto split: option.splits)
qed

lemma oldestFirst_jsSort:
  assumes "\<And>f. f \<in> set fs \<Longrightarrow> D (filedDate f) \<noteq> None" "sortOrder \<noteq> ''newest''"
  shows "oldestFirst D (jsSort (filingComparator D sortOrder) fs)"
proof -
  let ?k = "\<lambda>f. - the (D (filedDate f))"
  have "sorted_wrt (\<lambda>a b. ?k b \<le> ?k a) (jsSort (filingComparator D sortOrder) fs)"
  proof (rule sorted_jsSort_key)
    fix x y assume "x \<in> set fs" "y \<in> set fs"
    then obtain u v where "D (filedDate x) = Some u" "D (filedDate y) = Some v"
      using assms by blast
    then show "(negative (filingComparator D sortOrder x y) \<longleftrightarrow> ?k y < ?k x)
               \<and> (positive (filingComparator D sortOrder x y) \<longleftrightarrow> ?k x < ?k y)"
      using assms(2) by (simp add: filingComparator_def)
  qed
  then show ?thesis
    unfolding oldestFirst_def
    by (rule sorted_wrt_mono_rel[rotated]) (auto split: option.splits)
qed

text \<open>
  C6, as amended. For every filings list, watchlist and sort order the displayed filings
  are a permutation of exactly the filings passing the watchlist rule (an empty
  watchlist keeps all, a non-empty one keeps the exact symbol members). When the filed
  date of every kept filing is a valid date, they are displayed newest first for the
  order \<open>newest\<close> and oldest first for any other order.
\<close>

theorem C6_filing_pipeline:
  "mset (displayForm8k D watchlist sortOrder fs) = mset (filter (watchlistRule_spec watchlist) fs)
   \<and> ((\<forall>f \<in> set fs. watchlistRule_spec watchlist f \<longrightarrow> D (filedDate f) \<noteq> None) \<longrightarrow>
        (if sortOrder = ''newest'' then newestFirst D (displayForm8k D watchlist sortOrder fs)
         else oldestFirst D (displayForm8k D watchlist sortOrder fs)))"
proof (intro conjI impI)
  show "mset (displayForm8k D watchlist sortOrder fs) = mset (filter (watchlistRule_spec watchlist) fs)"
    by (rule mset_displayForm8k)
next
  assume valid: "\<forall>f \<in> set fs. watchlistRule_spec watchlist f \<longrightarrow> D (filedDate f) \<noteq> None"
  let ?kept = "if watchlist \<noteq> [] then filter (\<lambda>filing. symbol filing \<in> set watchlist) fs else fs"
  have v: "\<And>f. f \<in> set ?kept \<Longrightarrow> D (filedDate f) \<noteq> None"
    using valid by (auto simp: watchlistRule_spec_def split: if_splits)
  show "if sortOrder = ''newest'' then newestFirst D (displayForm8k D watchlist sortOrder fs)
         else oldestFirst D (displayForm8k D watchlist sortOrder fs)"
  proof (cases "sortOrder = ''newest''")
    case True
    then show ?thesis
      unfolding displayForm8k_def using newestFirst_jsSort[of ?kept D, OF v] by simp
  next
    case False
    then show ?thesis
      unfolding displayForm8k_def using oldestFirst_jsSort[of ?kept D sortOrder, OF v] by simp
  qed
qed

theorem C6_filing_pipeline_witness:
  "displayForm8k isoDate [''AAPL''] ''oldest''
      [exampleFiling ''AAPL'' Absent ''2024-01-02'',
       exampleFiling ''GOOGL'' Absent ''Unknown'',
       exampleFiling ''AAPL'' Absent ''2024-01-01'']
     = [exampleFiling ''AAPL'' Absent ''2024-01-01'',
        exampleFiling ''AAPL'' Absent ''2024-01-02'']
   \<and> oldestFirst isoDate
        (displayForm8k isoDate [''AAPL''] ''oldest''
          [exampleFiling ''AAPL'' Absent ''2024-01-02'',
           exampleFiling ''GOOGL'' Absent ''Unknown'',
           exampleFiling ''AAPL'' Absent ''2024-01-01''])"
proof -
  let ?fs = "[exampleFiling ''AAPL'' Absent ''2024-01-02'',
       exampleFiling ''GOOGL'' Absent ''Unknown'',
       exampleFiling ''AAPL'' Absent ''2024-01-01'']"
  have v: "\<forall>f \<in> set ?fs. watchlistRule_spec [''AAPL''] f \<longrightarrow> isoDate (filedDate f) \<noteq> None"
    by code_simp
  have e: "displayForm8k isoDate [''AAPL''] ''oldest'' ?fs
     = [exampleFiling ''AAPL'' Absent ''2024-01-01'',
        exampleFiling ''AAPL'' Absent ''2024-01-02'']"
    by code_simp
  from C6_filing_pipeline[of isoDate "[''AAPL'']" "''oldest''" ?fs] v
  have "oldestFirst isoDate (displayForm8k isoDate [''AAPL''] ''oldest'' ?fs)"
    by simp
  with e show ?thesis by (simp only: simp_thms)
qed

text \<open>
  The claim as stated fails when a filed date is \<open>Unknown\<close>: the comparator is \<open>NaN\<close> on
  every pair with that filing, nothing moves, and the filing of 2 January stays behind
  the filing of 1 January although the order is \<open>newest\<close>.
\<close>

theorem C6_unknown_date_counterexample:
  "displayForm8k isoDate [] ''newest''
      [exampleFiling ''AAPL'' Absent ''2024-01-01'',
       exampleFiling ''MSFT'' Absent ''Unknown'',
       exampleFiling ''NVDA'' Absent ''2024-01-02'']
     = [exampleFiling ''AAPL'' Absent ''2024-01-01'',
        exampleFiling ''MSFT'' Absent ''Unknown'',
        exampleFiling ''NVDA'' Absent ''2024-01-02'']
   \<and> \<not> newestFirst isoDate
        (displayForm8k isoDate [] ''newest''
          [exampleFiling ''AAPL'' Absent ''2024-01-01'',
           exampleFiling ''MSFT'' Absent ''Unknown'',
           exampleFiling ''NVDA'' Absent ''2024-01-02''])"
  by code_simp

section \<open>The value histogram\<close>











section \<open>The filing explanation\<close>

lemma describeItems_none:
  "\<forall>i \<in> set xs. \<exists>t. i = Str t \<and> \<not> truthy (getProperty (trim t)) \<Longrightarrow> describeItems xs acc = Inr acc"
  by (induction xs arbitrary: acc) (auto simp: Let_def)

lemma describeItems_strings:
  "NonString \<notin> set xs \<Longrightarrow> \<exists>ds. describeItems xs acc = Inr ds"
proof (induction xs arbitrary: acc)
  case Nil
  show ?case by simp
next
  case (Cons x xs)
  then obtain t where "x = Str t" by (cases x) auto
  with Cons show ?case by (simp add: Let_def)
qed

lemma describeItems_raises:
  "describeItems (NonString # xs) acc = Inl TypeError"
  by simp

lemma normaliseItems_strings: "i \<noteq> OtherValue \<Longrightarrow> stringItems i \<longleftrightarrow> NonString \<notin> set (normaliseItems i)"
  by (cases i) (auto simp: stringItems_def normaliseItems_def)

text \<open>On values of the shapes of the data model nothing is raised, and the text is not empty.\<close>

lemma get8KExplanation_total:
  assumes "stringItems i \<or> i = OtherValue"
  shows "\<exists>e. get8KExplanation i = Inr e \<and> e \<noteq> []"
proof (cases "i = OtherValue")
  case True
  then show ?thesis
    by (simp add: get8KExplanation_def itemsGuard_def normaliseItems_def defaultExplanation_def)
next
  case False
  with assms have "NonString \<notin> set (normaliseItems i)"
    by (simp add: normaliseItems_strings)
  then obtain ds where "describeItems (normaliseItems i) [] = Inr ds"
    using describeItems_strings by blast
  then show ?thesis
    by (simp add: get8KExplanation_def defaultExplanation_def)
qed

lemma get8KExplanation_default:
  assumes "stringItems i"
      and "\<forall>c \<in> set (itemCodes i). map_of itemExplanations c = None \<and> c \<notin> set objectPrototypeKeys"
  shows "get8KExplanation i = Inr defaultExplanation"
proof -
  have ns: "NonString \<notin> set (normaliseItems i)"
    using assms(1) by (cases i) (auto simp: stringItems_def normaliseItems_def)
  have "\<forall>e \<in> set (normaliseItems i). \<exists>t. e = Str t \<and> \<not> truthy (getProperty (trim t))"
  proof
    fix e assume e: "e \<in> set (normaliseItems i)"
    with ns obtain t where t: "e = Str t" by (cases e) auto
    with e have "trim t \<in> set (itemCodes i)"
      by (force simp: itemCodes_def)
    with assms(2) have "\<not> truthy (getProperty (trim t))"
      by (simp add: getProperty_def truthy_def)
    with t show "\<exists>t. e = Str t \<and> \<not> truthy (getProperty (trim t))" by blast
  qed
  then have "describeItems (normaliseItems i) [] = Inr []"
    by (rule describeItems_none)
  then show ?thesis by (simp add: get8KExplanation_def)
qed

lemma get8KExplanation_empty: "get8KExplanation (ArrayValue []) = Inr defaultExplanation"
  by (simp add: get8KExplanation_def itemsGuard_def)

lemma get8KExplanation_absent: "get8KExplanation NoValue = Inr defaultExplanation"
  by (simp add: get8KExplanation_def itemsGuard_def)

lemma get8KExplanation_unknown: "get8KExplanation (ArrayValue [Str ''9.99'']) = Inr defaultExplanation"
  by (rule get8KExplanation_default)
     (simp_all add: stringItems_def itemCodes_def normaliseItems_def trim_def isWhiteSpace_def
        itemExplanations_def objectPrototypeKeys_def)

lemma get8KExplanation_string: \<open>get8KExplanation (StringValue ''2.02, 8.01'')
   = Inr ''<div style="line-height: 1.8;"><span class="item-code">Item 2.02</span><span class="item-description">Earnings release or financial results</span><br><span class="item-code">Item 8.01</span><span class="item-description">Other material event (lawsuit, investigation, etc.)</span></div>''\<close>
  by (simp add: get8KExplanation_def itemsGuard_def normaliseItems_def trim_def isWhiteSpace_def
      itemExplanations_def getProperty_def truthy_def Let_def itemSpan_def propertyText_def)

text \<open>The filings of the feed have the shapes of the data model, so no row raises.\<close>

lemma get8KExplanation_valueOf: "\<exists>e. get8KExplanation (valueOf i) = Inr e"
proof -
  have "stringItems (valueOf i) \<or> valueOf i = OtherValue"
    by (cases i) (auto simp: valueOf_def stringItems_def)
  then show ?thesis using get8KExplanation_total by blast
qed

lemma renderRows_total: "\<exists>rows. renderRows fs = Inr rows"
proof (induction fs)
  case Nil
  show ?case by simp
next
  case (Cons f fs)
  obtain e where "get8KExplanation (valueOf (items f)) = Inr e"
    using get8KExplanation_valueOf by blast
  with Cons show ?case by auto
qed

lemma form8kRaises_never [simp]: "\<not> form8kRaises D s"
  using renderRows_total[of "displayForm8k D (customWatchlistTickers s) (form8kSortOrder s) (form8kData s)"]
  by (auto simp: form8kRaises_def)

text \<open>
  C2, as amended. For every filing whose \<open>items\<close> is absent, a string or an array of
  strings, \<open>get8KExplanation\<close> raises nothing and returns a non-empty string; and when, for
  such a filing, no trimmed item code is a key of the table or the name of a property
  inherited from \<open>Object.prototype\<close>, it returns the default text, which has no final full
  stop. Empty items, absent items and the unknown code 9.99 give the default text; the
  string form \<open>2.02, 8.01\<close> gives the two explanations.
\<close>

theorem C2_explanation_total: \<open>(stringItems i \<longrightarrow>
      get8KExplanation i \<noteq> Inl TypeError \<and> get8KExplanation i \<noteq> Inr [])
   \<and> (stringItems i
       \<and> (\<forall>c \<in> set (itemCodes i).
             map_of itemExplanations c = None \<and> c \<notin> set objectPrototypeKeys)
       \<longrightarrow> get8KExplanation i = Inr ''Material company event requiring SEC disclosure'')
   \<and> get8KExplanation (ArrayValue [])
       = Inr ''Material company event requiring SEC disclosure''
   \<and> get8KExplanation NoValue
       = Inr ''Material company event requiring SEC disclosure''
   \<and> get8KExplanation (ArrayValue [Str ''9.99''])
       = Inr ''Material company event requiring SEC disclosure''
   \<and> get8KExplanation (StringValue ''2.02, 8.01'')
       = Inr ''<div style="line-height: 1.8;"><span class="item-code">Item 2.02</span><span class="item-description">Earnings release or financial results</span><br><span class="item-code">Item 8.01</span><span class="item-description">Other material event (lawsuit, investigation, etc.)</span></div>''\<close>
proof -
  have "get8KExplanation i \<noteq> Inl TypeError \<and> get8KExplanation i \<noteq> Inr []" if "stringItems i"
    using get8KExplanation_total[of i] that by auto
  then show ?thesis
    using get8KExplanation_default[of i] get8KExplanation_empty get8KExplanation_absent
      get8KExplanation_unknown get8KExplanation_string
    unfolding defaultExplanation_def by blast
qed

theorem C2_explanation_total_witness:
  "get8KExplanation (ArrayValue [Str ''9.99'', Str '' 10.01 ''])
     = Inr ''Material company event requiring SEC disclosure''"
proof -
  let ?i = "ArrayValue [Str ''9.99'', Str '' 10.01 '']"
  have "stringItems ?i
        \<and> (\<forall>c \<in> set (itemCodes ?i).
             map_of itemExplanations c = None \<and> c \<notin> set objectPrototypeKeys)"
    by code_simp
  with C2_explanation_total[of ?i] show ?thesis by blast
qed

text \<open>
  The claim as stated fails three times. The default text of the source ends without
  the full stop the claim's string has. A code that the table does not list but that
  names an inherited property, such as \<open>constructor\<close>, is found by the lookup, so the result
  is not the default text. And an array with an element that is not a string, such as
  the number 2.02, makes \<open>item.trim()\<close> raise.
\<close>

theorem C2_fallback_counterexample:
  "get8KExplanation (ArrayValue [])
     \<noteq> Inr ''Material company event requiring SEC disclosure.''
   \<and> map_of itemExplanations ''constructor'' = None
   \<and> get8KExplanation (ArrayValue [Str ''constructor''])
     \<noteq> Inr ''Material company event requiring SEC disclosure''
   \<and> get8KExplanation (ArrayValue [NonString]) = Inl TypeError"
  by code_simp

section \<open>Loading the feed\<close>

lemma updateStats_fields [simp]:
  "tradesData (updateStats st s) = tradesData s"
  "form8kData (updateStats st s) = form8kData s"
  "filteredTrades (updateStats st s) = filteredTrades s"
  "customWatchlistTickers (updateStats st s) = customWatchlistTickers s"
  "form8kSortOrder (updateStats st s) = form8kSortOrder s"
  "in_filterType (updateStats st s) = in_filterType s"
  "in_filterTicker (updateStats st s) = in_filterTicker s"
  "in_filterMinValue (updateStats st s) = in_filterMinValue s"
  "in_sortBy (updateStats st s) = in_sortBy s"
  by (simp_all add: updateStats_def split: option.splits)

lemma renderCharts_fields [simp]:
  "tradesData (renderCharts s) = tradesData s"
  "form8kData (renderCharts s) = form8kData s"
  "filteredTrades (renderCharts s) = filteredTrades s"
  "el_form4Body (renderCharts s) = el_form4Body s"
  "el_form8kBody (renderCharts s) = el_form8kBody s"
  "el_totalAlerts (renderCharts s) = el_totalAlerts s"
  "el_totalBuys (renderCharts s) = el_totalBuys s"
  "el_totalSells (renderCharts s) = el_totalSells s"
  "el_totalValue (renderCharts s) = el_totalValue s"
  "el_total8K (renderCharts s) = el_total8K s"
  "el_activeTickers (renderCharts s) = el_activeTickers s"
  by (simp_all add: renderCharts_def)

lemma render_cells [simp]:
  "el_totalAlerts (renderForm8kTable D s) = el_totalAlerts s"
  "el_totalBuys (renderForm8kTable D s) = el_totalBuys s"
  "el_totalSells (renderForm8kTable D s) = el_totalSells s"
  "el_totalValue (renderForm8kTable D s) = el_totalValue s"
  "el_total8K (renderForm8kTable D s) = el_total8K s"
  "el_activeTickers (renderForm8kTable D s) = el_activeTickers s"
  "el_totalAlerts (renderForm4Table s) = el_totalAlerts s"
  "el_totalBuys (renderForm4Table s) = el_totalBuys s"
  "el_totalSells (renderForm4Table s) = el_totalSells s"
  "el_totalValue (renderForm4Table s) = el_totalValue s"
  "el_total8K (renderForm4Table s) = el_total8K s"
  "el_activeTickers (renderForm4Table s) = el_activeTickers s"
  by (simp_all add: renderForm8kTable_def renderForm4Table_def Let_def split: sum.splits)

lemma applyFilters_cells [simp]:
  "el_totalAlerts (applyFilters D s) = el_totalAlerts s"
  "el_totalBuys (applyFilters D s) = el_totalBuys s"
  "el_totalSells (applyFilters D s) = el_totalSells s"
  "el_totalValue (applyFilters D s) = el_totalValue s"
  "el_total8K (applyFilters D s) = el_total8K s"
  "el_activeTickers (applyFilters D s) = el_activeTickers s"
  by (simp_all add: applyFilters_def Let_def)

lemma el_form4Body_applyFilters:
  "el_form4Body (applyFilters D s) \<noteq> NoDataAvailable"
  "filteredTrades (applyFilters D s) = [] \<Longrightarrow> el_form4Body (applyFilters D s) = NoTradesMatch"
  by (simp_all add: applyFilters_def Let_def)

lemma el_form8kBody_renderForm8kTable:
  "form8kData s = [] \<Longrightarrow> el_form8kBody (renderForm8kTable D s) = NoFilingsAvailable"
  by (simp add: renderForm8kTable_def displayForm8k_def)

lemma loadData_success:
  assumes "fetchJson (tradesFeed f) = Some (JsonDoc td)" "fetchJson (form8kFeed f) = Some (JsonDoc fd)"
  shows "loadData D f s =
     (renderCharts (renderForm8kTable D (applyFilters D (updateStats (stats td)
        (s\<lparr>tradesData := (case trades td of None \<Rightarrow> [] | Some ts \<Rightarrow> ts),
           form8kData := (case filings fd of None \<Rightarrow> [] | Some fs \<Rightarrow> fs)\<rparr>)))))
       \<lparr>el_lastUpdate := LastUpdated (lastUpdated td)\<rparr>"
  using assms by (simp add: loadData_def Let_def)

lemma loadData_trades_failed:
  assumes "fetchJson (tradesFeed f) = None \<or> fetchJson (tradesFeed f) = Some JsonNull"
  shows "loadData D f s = loadFailed s"
  using assms by (auto simp: loadData_def)

lemma loadData_filings_failed:
  assumes "fetchJson (tradesFeed f) = Some (JsonDoc td)"
     "fetchJson (form8kFeed f) = None \<or> fetchJson (form8kFeed f) = Some JsonNull"
  shows "loadData D f s = loadFailed (s\<lparr>tradesData := (case trades td of None \<Rightarrow> [] | Some ts \<Rightarrow> ts)\<rparr>)"
  using assms by (auto simp: loadData_def Let_def)

lemma loadData_success_data:
  assumes "fetchJson (tradesFeed f) = Some (JsonDoc td)" "fetchJson (form8kFeed f) = Some (JsonDoc fd)"
  shows "tradesData (loadData D f s) = (case trades td of None \<Rightarrow> [] | Some ts \<Rightarrow> ts)"
    "form8kData (loadData D f s) = (case filings fd of None \<Rightarrow> [] | Some fs \<Rightarrow> fs)"
    "el_form4Body (loadData D f s) \<noteq> NoDataAvailable"
  unfolding loadData_success[OF assms]
  by (simp_all add: el_form4Body_applyFilters)

lemma loadData_success_cells:
  assumes "fetchJson (tradesFeed f) = Some (JsonDoc td)" "fetchJson (form8kFeed f) = Some (JsonDoc fd)"
  shows "el_totalAlerts (loadData D f s)
           = (case stats td of None \<Rightarrow> el_totalAlerts s | Some st \<Rightarrow> LocaleNumber (stats_totalAlerts st))"
    "el_totalBuys (loadData D f s)
           = (case stats td of None \<Rightarrow> el_totalBuys s | Some st \<Rightarrow> LocaleNumber (stats_buys st))"
    "el_totalSells (loadData D f s)
           = (case stats td of None \<Rightarrow> el_totalSells s | Some st \<Rightarrow> LocaleNumber (stats_sells st))"
    "el_totalValue (loadData D f s)
           = (case stats td of None \<Rightarrow> el_totalValue s | Some st \<Rightarrow> formatTotalValue (stats_totalValue st))"
    "el_total8K (loadData D f s)
           = (case stats td of None \<Rightarrow> el_total8K s
              | Some st \<Rightarrow> LocaleNumber (of_nat (length (form8kData (loadData D f s)))))"
    "el_activeTickers (loadData D f s)
           = (case stats td of None \<Rightarrow> el_activeTickers s
              | Some st \<Rightarrow> LocaleNumber (of_nat (card (set (map symbol (tradesData (loadData D f s)))
                                                       \<union> set (map symbol (form8kData (loadData D f s)))))))"
  unfolding loadData_success_data(1,2)[OF assms]
  unfolding loadData_success[OF assms]
  by (simp_all add: updateStats_def length_remdups_card_conv split: option.splits)

text \<open>
  C3, as amended. After a load in which both documents arrived, the total, buy, sell and
  total-value cells show the numbers of the \<open>stats\<close> object of the trades document, as the
  feed supplied them: the total value shown is \<open>stats.totalValue\<close>, formatted, and is not
  summed from the trades. The filing count and the count of distinct symbols are computed
  from the full new datasets, whatever the filter controls hold. When the document has no
  \<open>stats\<close>, none of the six cells changes.
\<close>

theorem C3_summary_cells:
  assumes "fetchJson (tradesFeed f) = Some (JsonDoc td)"
      and "fetchJson (form8kFeed f) = Some (JsonDoc fd)"
  shows "(case stats td of
            Some st \<Rightarrow>
              el_totalAlerts (loadData D f s) = LocaleNumber (stats_totalAlerts st)
              \<and> el_totalBuys (loadData D f s) = LocaleNumber (stats_buys st)
              \<and> el_totalSells (loadData D f s) = LocaleNumber (stats_sells st)
              \<and> el_totalValue (loadData D f s) = formatTotalValue (stats_totalValue st)
              \<and> el_total8K (loadData D f s)
                  = LocaleNumber (of_nat (length (form8kData (loadData D f s))))
              \<and> el_activeTickers (loadData D f s)
                  = LocaleNumber (of_nat (card (set (map symbol (tradesData (loadData D f s)))
                                               \<union> set (map symbol (form8kData (loadData D f s))))))
          | None \<Rightarrow>
              el_totalAlerts (loadData D f s) = el_totalAlerts s
              \<and> el_totalBuys (loadData D f s) = el_totalBuys s
              \<and> el_totalSells (loadData D f s) = el_totalSells s
              \<and> el_totalValue (loadData D f s) = el_totalValue s
              \<and> el_total8K (loadData D f s) = el_total8K s
              \<and> el_activeTickers (loadData D f s) = el_activeTickers s)"
  by (simp add: loadData_success_cells[OF assms] split: option.splits)

theorem C3_summary_cells_witness:
  "el_totalValue (loadData isoDate
      (exampleFeed (Some [exampleTrade ''AAPL'' ''BUY'' 200000 ''2024-01-01'',
                          exampleTrade ''MSFT'' ''SELL'' 50000 ''2024-01-02''])
         (Some \<lparr>stats_totalAlerts = 2, stats_buys = 1, stats_sells = 1, stats_totalValue = 250000\<rparr>)
         (Some [exampleFiling ''MSFT'' Absent ''2024-01-01'',
                exampleFiling ''GOOGL'' Absent ''2024-01-02'']))
      pageLoadState) = Dollars 250 ''K''
   \<and> el_activeTickers (loadData isoDate
      (exampleFeed (Some [exampleTrade ''AAPL'' ''BUY'' 200000 ''2024-01-01'',
                          exampleTrade ''MSFT'' ''SELL'' 50000 ''2024-01-02''])
         (Some \<lparr>stats_totalAlerts = 2, stats_buys = 1, stats_sells = 1, stats_totalValue = 250000\<rparr>)
         (Some [exampleFiling ''MSFT'' Absent ''2024-01-01'',
                exampleFiling ''GOOGL'' Absent ''2024-01-02'']))
      pageLoadState) = LocaleNumber 3"
proof -
  let ?td = "\<lparr>trades = Some [exampleTrade ''AAPL'' ''BUY'' 200000 ''2024-01-01'',
                          exampleTrade ''MSFT'' ''SELL'' 50000 ''2024-01-02''],
              stats = Some \<lparr>stats_totalAlerts = 2, stats_buys = 1, stats_sells = 1, stats_totalValue = 250000\<rparr>,
              lastUpdated = None\<rparr>"
  let ?fd = "\<lparr>filings = Some [exampleFiling ''MSFT'' Absent ''2024-01-01'',
                exampleFiling ''GOOGL'' Absent ''2024-01-02'']\<rparr>"
  let ?f = "exampleFeed (trades ?td) (stats ?td) (filings ?fd)"
  have a: "fetchJson (tradesFeed ?f) = Some (JsonDoc ?td)"
    by (simp add: exampleFeed_def fetchJson_def)
  have b: "fetchJson (form8kFeed ?f) = Some (JsonDoc ?fd)"
    by (simp add: exampleFeed_def fetchJson_def)
  have c: "tradesData (loadData isoDate ?f pageLoadState) = the (trades ?td)"
          "form8kData (loadData isoDate ?f pageLoadState) = the (filings ?fd)"
    using loadData_success_data(1,2)[OF a b] by simp_all
  have d: "card (set (map symbol (the (trades ?td))) \<union> set (map symbol (the (filings ?fd)))) = 3"
    by code_simp
  from C3_summary_cells[OF a b, of isoDate pageLoadState] show ?thesis
    unfolding c d by (simp add: formatTotalValue_def)
qed

text \<open>
  The claim as stated fails: with one trade worth 200000 and a \<open>stats\<close> object that says
  999, the total-value cell shows 999, and the alerts cell shows the 7 of \<open>stats\<close>.
\<close>

theorem C3_total_value_counterexample:
  "el_totalValue (loadData isoDate
      (exampleFeed (Some [exampleTrade ''AAPL'' ''BUY'' 200000 ''2024-01-01''])
         (Some \<lparr>stats_totalAlerts = 7, stats_buys = 4, stats_sells = 3, stats_totalValue = 999\<rparr>)
         (Some []))
      pageLoadState) = Dollars 999 ''''
   \<and> sum_list (map (\<lambda>t. case totalValue t of None \<Rightarrow> 0 | Some v \<Rightarrow> v) (tradesData (loadData isoDate
      (exampleFeed (Some [exampleTrade ''AAPL'' ''BUY'' 200000 ''2024-01-01''])
         (Some \<lparr>stats_totalAlerts = 7, stats_buys = 4, stats_sells = 3, stats_totalValue = 999\<rparr>)
         (Some []))
      pageLoadState))) = 200000
   \<and> formatTotalValue 200000 = Dollars 200 ''K''
   \<and> el_totalAlerts (loadData isoDate
      (exampleFeed (Some [exampleTrade ''AAPL'' ''BUY'' 200000 ''2024-01-01''])
         (Some \<lparr>stats_totalAlerts = 7, stats_buys = 4, stats_sells = 3, stats_totalValue = 999\<rparr>)
         (Some []))
      pageLoadState) = LocaleNumber 7"
  by code_simp


lemma loadData_success_views:
  assumes "fetchJson (tradesFeed f) = Some (JsonDoc td)" "fetchJson (form8kFeed f) = Some (JsonDoc fd)"
  shows "trades td = None \<Longrightarrow> el_form4Body (loadData D f s) = NoTradesMatch"
    "trades td = None \<Longrightarrow> filteredTrades (loadData D f s) = []"
    "filings fd = None \<Longrightarrow> el_form8kBody (loadData D f s) = NoFilingsAvailable"
  unfolding loadData_success[OF assms]
  by (simp_all add: el_form4Body_applyFilters filteredTrades_applyFilters
      el_form8kBody_renderForm8kTable)

lemma fetchJson_cases:
  "fetchJson NetworkError = None"
  "fetchJson (Response ok None) = None"
  "fetchJson (Response False body) = fetchJson (Response True body)"
  by (simp_all add: fetchJson_def)

text \<open>
  C9, as amended. When the trades request is rejected, or its body is not JSON or is
  \<open>null\<close>, \<open>loadData\<close> changes nothing but the trades table, which shows the "no data
  available" placeholder: both datasets keep their values. When the trades document
  arrived and the filings request fails in one of these ways, \<open>form8kData\<close> keeps its value,
  \<open>tradesData\<close> already holds the new trades, and the placeholder is shown. The status of a
  response is not looked at. No failure stops the timer: every tick runs \<open>loadData\<close> on
  the state the tick before left, and a tick on which both documents arrive installs
  them, whatever happened on the tick before.
\<close>

theorem C9_load_failure:
  "((fetchJson (tradesFeed f) = None \<or> fetchJson (tradesFeed f) = Some JsonNull) \<longrightarrow>
      loadData D f s = s\<lparr>el_form4Body := NoDataAvailable\<rparr>
      \<and> tradesData (loadData D f s) = tradesData s
      \<and> form8kData (loadData D f s) = form8kData s)
   \<and> (fetchJson (tradesFeed f) = Some (JsonDoc td)
       \<and> (fetchJson (form8kFeed f) = None \<or> fetchJson (form8kFeed f) = Some JsonNull) \<longrightarrow>
      tradesData (loadData D f s) = (case trades td of None \<Rightarrow> [] | Some ts \<Rightarrow> ts)
      \<and> form8kData (loadData D f s) = form8kData s
      \<and> el_form4Body (loadData D f s) = NoDataAvailable)
   \<and> fetchJson (tradesFeed (f\<lparr>tradesFeed := NetworkError\<rparr>)) = None
   \<and> fetchJson (tradesFeed (f\<lparr>tradesFeed := Response ok None\<rparr>)) = None
   \<and> fetchJson (tradesFeed (f\<lparr>tradesFeed := Response False body\<rparr>))
       = fetchJson (tradesFeed (f\<lparr>tradesFeed := Response True body\<rparr>))
   \<and> refresh D (f # g # fs) s = refresh D fs (loadData D g (loadData D f s))
   \<and> (fetchJson (tradesFeed g) = Some (JsonDoc td') \<and> fetchJson (form8kFeed g) = Some (JsonDoc fd') \<longrightarrow>
      tradesData (refresh D [f, g] s) = (case trades td' of None \<Rightarrow> [] | Some ts \<Rightarrow> ts)
      \<and> form8kData (refresh D [f, g] s) = (case filings fd' of None \<Rightarrow> [] | Some fs \<Rightarrow> fs)
      \<and> el_form4Body (refresh D [f, g] s) \<noteq> NoDataAvailable)"
proof (intro conjI impI)
  assume a: "fetchJson (tradesFeed f) = None \<or> fetchJson (tradesFeed f) = Some JsonNull"
  show "loadData D f s = s\<lparr>el_form4Body := NoDataAvailable\<rparr>"
    "tradesData (loadData D f s) = tradesData s"
    "form8kData (loadData D f s) = form8kData s"
    by (simp_all add: loadData_trades_failed[OF a] loadFailed_def)
next
  assume "fetchJson (tradesFeed f) = Some (JsonDoc td)
       \<and> (fetchJson (form8kFeed f) = None \<or> fetchJson (form8kFeed f) = Some JsonNull)"
  then have e: "loadData D f s
      = loadFailed (s\<lparr>tradesData := (case trades td of None \<Rightarrow> [] | Some ts \<Rightarrow> ts)\<rparr>)"
    by (intro loadData_filings_failed) simp_all
  show "tradesData (loadData D f s) = (case trades td of None \<Rightarrow> [] | Some ts \<Rightarrow> ts)"
    "form8kData (loadData D f s) = form8kData s"
    "el_form4Body (loadData D f s) = NoDataAvailable"
    by (simp_all add: e loadFailed_def)
next
  assume "fetchJson (tradesFeed g) = Some (JsonDoc td') \<and> fetchJson (form8kFeed g) = Some (JsonDoc fd')"
  then have a: "fetchJson (tradesFeed g) = Some (JsonDoc td')"
    and b: "fetchJson (form8kFeed g) = Some (JsonDoc fd')" by simp_all
  show "tradesData (refresh D [f, g] s) = (case trades td' of None \<Rightarrow> [] | Some ts \<Rightarrow> ts)"
    "form8kData (refresh D [f, g] s) = (case filings fd' of None \<Rightarrow> [] | Some fs \<Rightarrow> fs)"
    "el_form4Body (refresh D [f, g] s) \<noteq> NoDataAvailable"
    using loadData_success_data[OF a b, of D "loadData D f s"] by simp_all
qed (simp_all add: fetchJson_cases)

theorem C9_load_failure_witness:
  "tradesData (loadData isoDate
      (filingsRejectedFeed (Some [exampleTrade ''MSFT'' ''SELL'' 50000 ''2024-01-02'']))
      (pageLoadState\<lparr>tradesData := [exampleTrade ''AAPL'' ''BUY'' 200000 ''2024-01-01''],
                      form8kData := [exampleFiling ''AAPL'' Absent ''2024-01-01'']\<rparr>))
     = [exampleTrade ''MSFT'' ''SELL'' 50000 ''2024-01-02'']
   \<and> form8kData (loadData isoDate
      (filingsRejectedFeed (Some [exampleTrade ''MSFT'' ''SELL'' 50000 ''2024-01-02'']))
      (pageLoadState\<lparr>tradesData := [exampleTrade ''AAPL'' ''BUY'' 200000 ''2024-01-01''],
                      form8kData := [exampleFiling ''AAPL'' Absent ''2024-01-01'']\<rparr>))
     = [exampleFiling ''AAPL'' Absent ''2024-01-01'']
   \<and> el_form4Body (loadData isoDate
      (filingsRejectedFeed (Some [exampleTrade ''MSFT'' ''SELL'' 50000 ''2024-01-02'']))
      (pageLoadState\<lparr>tradesData := [exampleTrade ''AAPL'' ''BUY'' 200000 ''2024-01-01''],
                      form8kData := [exampleFiling ''AAPL'' Absent ''2024-01-01'']\<rparr>))
     = NoDataAvailable
   \<and> tradesData (refresh isoDate
      [filingsRejectedFeed (Some [exampleTrade ''MSFT'' ''SELL'' 50000 ''2024-01-02'']),
       exampleFeed (Some [exampleTrade ''NVDA'' ''BUY'' 300000 ''2024-01-03'']) None (Some [])]
      (pageLoadState\<lparr>tradesData := [exampleTrade ''AAPL'' ''BUY'' 200000 ''2024-01-01''],
                      form8kData := [exampleFiling ''AAPL'' Absent ''2024-01-01'']\<rparr>))
     = [exampleTrade ''NVDA'' ''BUY'' 300000 ''2024-01-03'']"
proof -
  let ?td = "\<lparr>trades = Some [exampleTrade ''MSFT'' ''SELL'' 50000 ''2024-01-02''],
              stats = None, lastUpdated = None\<rparr>"
  let ?td' = "\<lparr>trades = Some [exampleTrade ''NVDA'' ''BUY'' 300000 ''2024-01-03''],
              stats = None, lastUpdated = None\<rparr>"
  let ?fd' = "\<lparr>filings = Some []\<rparr> :: form8kJson"
  let ?f = "filingsRejectedFeed (trades ?td)"
  let ?g = "exampleFeed (trades ?td') None (filings ?fd')"
  let ?s = "pageLoadState\<lparr>tradesData := [exampleTrade ''AAPL'' ''BUY'' 200000 ''2024-01-01''],
                      form8kData := [exampleFiling ''AAPL'' Absent ''2024-01-01'']\<rparr>"
  have a: "fetchJson (tradesFeed ?f) = Some (JsonDoc ?td)
           \<and> (fetchJson (form8kFeed ?f) = None \<or> fetchJson (form8kFeed ?f) = Some JsonNull)"
    by (simp add: filingsRejectedFeed_def fetchJson_def)
  have b: "fetchJson (tradesFeed ?g) = Some (JsonDoc ?td') \<and> fetchJson (form8kFeed ?g) = Some (JsonDoc ?fd')"
    by (simp add: exampleFeed_def fetchJson_def)
  from C9_load_failure[where f = ?f and td = ?td and D = isoDate and s = ?s and g = ?g
      and td' = ?td' and fd' = ?fd'] a b show ?thesis
    by simp
qed

text \<open>
  The claim as stated fails: when the filings request is rejected after the trades
  document arrived, \<open>tradesData\<close> has changed. And a \<open>404\<close> answer whose body is a JSON object
  is not a failure for the script: it empties \<open>tradesData\<close> and shows no placeholder.
\<close>

theorem C9_partial_update_counterexample:
  "tradesData (loadData isoDate
      (filingsRejectedFeed (Some [exampleTrade ''MSFT'' ''SELL'' 50000 ''2024-01-02'']))
      (pageLoadState\<lparr>tradesData := [exampleTrade ''AAPL'' ''BUY'' 200000 ''2024-01-01'']\<rparr>))
     = [exampleTrade ''MSFT'' ''SELL'' 50000 ''2024-01-02'']
   \<and> tradesData (loadData isoDate
      (filingsRejectedFeed (Some [exampleTrade ''MSFT'' ''SELL'' 50000 ''2024-01-02'']))
      (pageLoadState\<lparr>tradesData := [exampleTrade ''AAPL'' ''BUY'' 200000 ''2024-01-01'']\<rparr>))
     \<noteq> tradesData (pageLoadState\<lparr>tradesData := [exampleTrade ''AAPL'' ''BUY'' 200000 ''2024-01-01'']\<rparr>)
   \<and> tradesData (loadData isoDate notFoundFeed
      (pageLoadState\<lparr>tradesData := [exampleTrade ''AAPL'' ''BUY'' 200000 ''2024-01-01'']\<rparr>)) = []
   \<and> el_form4Body (loadData isoDate notFoundFeed
      (pageLoadState\<lparr>tradesData := [exampleTrade ''AAPL'' ''BUY'' 200000 ''2024-01-01'']\<rparr>))
     = NoTradesMatch"
  by code_simp

text \<open>
  C10. When both documents arrive and the trades document has no \<open>trades\<close> field,
  \<open>tradesData\<close> becomes the empty list, whatever it held, and the trades table shows "no
  trades match", not the "no data available" placeholder; when the filings document has
  no \<open>filings\<close> field, \<open>form8kData\<close> becomes the empty list and the filings table shows "no
  filings available". In neither case is the placeholder of the failure path shown.
\<close>

theorem C10_missing_field:
  assumes "fetchJson (tradesFeed f) = Some (JsonDoc td)"
      and "fetchJson (form8kFeed f) = Some (JsonDoc fd)"
  shows "(trades td = None \<longrightarrow>
            tradesData (loadData D f s) = [] \<and> filteredTrades (loadData D f s) = []
            \<and> el_form4Body (loadData D f s) = NoTradesMatch)
         \<and> (filings fd = None \<longrightarrow>
            form8kData (loadData D f s) = [] \<and> el_form8kBody (loadData D f s) = NoFilingsAvailable)
         \<and> el_form4Body (loadData D f s) \<noteq> NoDataAvailable"
  using loadData_success_data[OF assms, of D s] loadData_success_views[OF assms, of D s]
  by simp

theorem C10_missing_field_witness:
  "tradesData (loadData isoDate (exampleFeed None None None)
      (pageLoadState\<lparr>tradesData := [exampleTrade ''AAPL'' ''BUY'' 200000 ''2024-01-01''],
                      form8kData := [exampleFiling ''AAPL'' Absent ''2024-01-01'']\<rparr>)) = []
   \<and> form8kData (loadData isoDate (exampleFeed None None None)
      (pageLoadState\<lparr>tradesData := [exampleTrade ''AAPL'' ''BUY'' 200000 ''2024-01-01''],
                      form8kData := [exampleFiling ''AAPL'' Absent ''2024-01-01'']\<rparr>)) = []
   \<and> el_form4Body (loadData isoDate (exampleFeed None None None)
      (pageLoadState\<lparr>tradesData := [exampleTrade ''AAPL'' ''BUY'' 200000 ''2024-01-01''],
                      form8kData := [exampleFiling ''AAPL'' Absent ''2024-01-01'']\<rparr>)) = NoTradesMatch"
proof -
  let ?td = "\<lparr>trades = None, stats = None, lastUpdated = None\<rparr> :: tradesJson"
  let ?fd = "\<lparr>filings = None\<rparr> :: form8kJson"
  let ?f = "exampleFeed None None None"
  have a: "fetchJson (tradesFeed ?f) = Some (JsonDoc ?td)"
    by (simp add: exampleFeed_def fetchJson_def)
  have b: "fetchJson (form8kFeed ?f) = Some (JsonDoc ?fd)"
    by (simp add: exampleFeed_def fetchJson_def)
  from C10_missing_field[OF a b, of isoDate] show ?thesis by simp
qed

section \<open>The default watchlist\<close>

lemma passesFilter_no_watchlist:
  "passesFilter ftype fticker [] minValue t
   \<longleftrightarrow> (ftype = ''all'' \<or> type t = ftype) \<and> (fticker = [] \<or> str_includes (symbol t) fticker)
       \<and> \<not> jsLess (totalValue t) minValue"
  by (auto simp: passesFilter_def)

lemma length_DEFAULT_WATCHLIST: "length DEFAULT_WATCHLIST = 77"
  by (simp add: DEFAULT_WATCHLIST_def)

text \<open>
  C5, as amended. \<open>DEFAULT_WATCHLIST\<close> has 77 symbols and no function reads it. With no
  custom watchlist (\<open>customWatchlistTickers\<close> empty, as at page load, after
  \<open>clearCustomWatchlist\<close> and after \<open>applyCustomWatchlist\<close> on a blank field) no record is
  excluded for its symbol: the trades kept are those passing the type, ticker and
  minimum-value rules, and every filing is displayed.
\<close>

theorem C5_no_default_watchlist:
  "length DEFAULT_WATCHLIST = 77
   \<and> (customWatchlistTickers s = [] \<longrightarrow>
        set (filteredTrades (applyFilters D s))
          = {t \<in> set (tradesData s).
               (in_filterType s = ''all'' \<or> type t = in_filterType s)
               \<and> (in_filterTicker s = [] \<or> sublist (toUpperCase (in_filterTicker s)) (symbol t))
               \<and> \<not> jsLess (totalValue t) (minValueOf (in_filterMinValue s))}
        \<and> mset (displayForm8k D (customWatchlistTickers s) (form8kSortOrder s) (form8kData s))
          = mset (form8kData s))
   \<and> customWatchlistTickers (clearCustomWatchlist D s) = []
   \<and> (trim (in_customWatchlist s) = [] \<longrightarrow> customWatchlistTickers (applyCustomWatchlist D s) = [])"
  by (auto simp: length_DEFAULT_WATCHLIST filteredTrades_applyFilters passesFilter_no_watchlist
      str_includes_sublist displayForm8k_def clearCustomWatchlist_def applyCustomWatchlist_def
      parseWatchlist_def)

theorem C5_no_default_watchlist_witness:
  "filteredTrades (applyFilters isoDate
      (pageLoadState\<lparr>tradesData := [exampleTrade ''AAPL'' ''BUY'' 200000 ''2024-01-01'',
                                      exampleTrade ''ZZZZ'' ''BUY'' 50000 ''2024-01-01'']\<rparr>))
     = [exampleTrade ''AAPL'' ''BUY'' 200000 ''2024-01-01'']
   \<and> set (filteredTrades (applyFilters isoDate
      (pageLoadState\<lparr>tradesData := [exampleTrade ''AAPL'' ''BUY'' 200000 ''2024-01-01'',
                                      exampleTrade ''ZZZZ'' ''BUY'' 50000 ''2024-01-01'']\<rparr>)))
     = {exampleTrade ''AAPL'' ''BUY'' 200000 ''2024-01-01''}"
proof -
  let ?s = "pageLoadState\<lparr>tradesData := [exampleTrade ''AAPL'' ''BUY'' 200000 ''2024-01-01'',
                                      exampleTrade ''ZZZZ'' ''BUY'' 50000 ''2024-01-01'']\<rparr>"
  have h: "customWatchlistTickers ?s = []" by (simp add: pageLoadState_def)
  have e: "filteredTrades (applyFilters isoDate ?s) = [exampleTrade ''AAPL'' ''BUY'' 200000 ''2024-01-01'']"
    by code_simp
  from C5_no_default_watchlist[of ?s isoDate] h
  have "set (filteredTrades (applyFilters isoDate ?s))
          = {t \<in> set (tradesData ?s).
               (in_filterType ?s = ''all'' \<or> type t = in_filterType ?s)
               \<and> (in_filterTicker ?s = [] \<or> sublist (toUpperCase (in_filterTicker ?s)) (symbol t))
               \<and> \<not> jsLess (totalValue t) (minValueOf (in_filterMinValue ?s))}"
    by blast
  with e show ?thesis by simp
qed

text \<open>
  The claim as stated fails: with no custom watchlist, a trade and a filing of the
  symbol ZZZZ, which the default list does not hold, are both kept.
\<close>

theorem C5_unlisted_symbol_counterexample:
  "''ZZZZ'' \<notin> set DEFAULT_WATCHLIST
   \<and> customWatchlistTickers pageLoadState = []
   \<and> filteredTrades (applyFilters isoDate
        (pageLoadState\<lparr>tradesData := [exampleTrade ''ZZZZ'' ''BUY'' 200000 ''2024-01-01'']\<rparr>))
      = [exampleTrade ''ZZZZ'' ''BUY'' 200000 ''2024-01-01'']
   \<and> displayForm8k isoDate (customWatchlistTickers pageLoadState) ''newest''
        [exampleFiling ''ZZZZ'' Absent ''2024-01-01'']
      = [exampleFiling ''ZZZZ'' Absent ''2024-01-01'']"
  by code_simp

end
